theory Spec2Isabelle
  imports Complex_Main "HOL-Library.AList"
begin

text \<open>
  A model of the video augmentation scripts \<^verbatim>\<open>video_processor.py\<close> (Frame Sampler,
  Content Describer), \<^verbatim>\<open>video_augmentor.py\<close> (Augmentation Invoker) and
  \<^verbatim>\<open>video_orchestrator.py\<close> (Episode Allocator, Dataset Orchestrator). Every function
  takes the world (file system, working directory, trace of external calls) and gives
  it back; a function that can raise returns \<open>Inl\<close> of the exception. The library
  functions the scripts call are modelled first, then the scripts, then the properties.
\<close>

section \<open>Python strings and numbers\<close>

text \<open>
  Strings are \<^typ>\<open>string\<close>, of ASCII characters (codes below 128). \<open>startswith\<close>,
  \<open>endswith\<close> and \<open>strip\<close> are the \<^verbatim>\<open>str\<close> methods of the same names;
  \<open>replace_empty s old\<close> is \<^verbatim>\<open>s.replace(old, "")\<close>; \<open>int_of_str\<close> is \<^verbatim>\<open>int(s)\<close>
  with \<open>None\<close> for \<^verbatim>\<open>ValueError\<close>; \<open>format_d w x\<close> is the format specification
  \<^verbatim>\<open>{x:0wd}\<close> and \<open>str_nat\<close> is \<^verbatim>\<open>str\<close> on a non-negative integer.
  \<^verbatim>\<open>str.strip\<close> removes the characters of \<^verbatim>\<open>str.isspace\<close> (codes 9 to 13 and 28
  to 32); \<^verbatim>\<open>int\<close> skips, on either side of an ASCII string, only the white space of C
  (codes 9 to 13 and 32), then reads a sign and decimal digits, with single
  underscores between digits.
\<close>

definition startswith :: "string \<Rightarrow> string \<Rightarrow> bool" where
  "startswith s p = (take (length p) s = p)"

definition endswith :: "string \<Rightarrow> string \<Rightarrow> bool" where
  "endswith s p = (length p \<le> length s \<and> drop (length s - length p) s = p)"

definition is_space :: "char \<Rightarrow> bool" where
  "is_space c = (let n = (of_char c :: nat) in (9 \<le> n \<and> n \<le> 13) \<or> (28 \<le> n \<and> n \<le> 32))"

definition strip :: "string \<Rightarrow> string" where
  "strip s = rev (dropWhile is_space (rev (dropWhile is_space s)))"

function replace_empty :: "string \<Rightarrow> string \<Rightarrow> string" where
  "replace_empty s old =
     (if old = [] then s
      else (case s of
              [] \<Rightarrow> []
            | c # cs \<Rightarrow> if startswith s old then replace_empty (drop (length old) s) old
                       else c # replace_empty cs old))"
  by pat_completeness auto
termination
  by (relation "measure (\<lambda>(s, old). length s)") auto

declare replace_empty.simps [simp del]

definition is_digit :: "char \<Rightarrow> bool" where
  "is_digit c = (let n = (of_char c :: nat) in 48 \<le> n \<and> n \<le> 57)"

definition digit_val :: "char \<Rightarrow> nat" where
  "digit_val c = of_char c - 48"

fun parse_digits :: "nat \<Rightarrow> string \<Rightarrow> nat option" where
  "parse_digits acc [] = None"
| "parse_digits acc [c] = (if is_digit c then Some (10 * acc + digit_val c) else None)"
| "parse_digits acc (c # d # ds) =
     (if is_digit c
      then (if d = CHR ''_'' then parse_digits (10 * acc + digit_val c) ds
            else parse_digits (10 * acc + digit_val c) (d # ds))
      else None)"

definition is_c_space :: "char \<Rightarrow> bool" where
  "is_c_space c = (let n = (of_char c :: nat) in (9 \<le> n \<and> n \<le> 13) \<or> n = 32)"

definition int_of_str :: "string \<Rightarrow> int option" where
  "int_of_str s =
     (case rev (dropWhile is_c_space (rev (dropWhile is_c_space s))) of
        [] \<Rightarrow> None
      | c # cs \<Rightarrow>
          if c = CHR ''-'' then map_option (\<lambda>n. - int n) (parse_digits 0 cs)
          else if c = CHR ''+'' then map_option int (parse_digits 0 cs)
          else map_option int (parse_digits 0 (c # cs)))"

function str_nat :: "nat \<Rightarrow> string" where
  "str_nat n = (if n < 10 then [char_of (48 + n)]
                else str_nat (n div 10) @ [char_of (48 + n mod 10)])"
  by pat_completeness auto
termination
  by (relation "measure id") auto

declare str_nat.simps [simp del]

definition format_d :: "nat \<Rightarrow> int \<Rightarrow> string" where
  "format_d width x =
     (let digits = str_nat (nat \<bar>x\<bar>);
          sign = (if x < 0 then ''-'' else [])
      in sign @ replicate (width - length sign - length digits) CHR ''0'' @ digits)"

section \<open>Paths (posixpath)\<close>

definition join :: "string \<Rightarrow> string \<Rightarrow> string" where
  "join a b =
     (if startswith b ''/'' then b
      else if a = [] \<or> endswith a ''/'' then a @ b
      else a @ ''/'' @ b)"

definition basename :: "string \<Rightarrow> string" where
  "basename p = rev (takeWhile (\<lambda>c. c \<noteq> CHR ''/'') (rev p))"

definition dirname :: "string \<Rightarrow> string" where
  "dirname p =
     (let head = rev (dropWhile (\<lambda>c. c \<noteq> CHR ''/'') (rev p))
      in if head \<noteq> [] \<and> list_ex (\<lambda>c. c \<noteq> CHR ''/'') head
         then rev (dropWhile (\<lambda>c. c = CHR ''/'') (rev head))
         else head)"

definition splitext :: "string \<Rightarrow> string \<times> string" where
  "splitext p =
     (let name = basename p;
          ext = rev (takeWhile (\<lambda>c. c \<noteq> CHR ''.'') (rev name));
          root = take (length name - length ext - 1) name
      in if List.member name CHR ''.'' \<and> list_ex (\<lambda>c. c \<noteq> CHR ''.'') root
         then (take (length p - length ext - 1) p, CHR ''.'' # ext)
         else (p, []))"

section \<open>The file system and the process state\<close>

text \<open>
  The file system is an association list from absolute path strings to nodes (a
  directory, or a regular file with its content); the first entry of a key is the one
  that counts. A path is looked up as the string it is, after joining a relative path
  with the working directory: no normalisation of \<^verbatim>\<open>.\<close>, \<^verbatim>\<open>..\<close> or doubled
  slashes, no symbolic links, no permissions. \<open>trace\<close> records, oldest first, every
  call that can change the world outside the process.
\<close>

datatype node = Dir | File string

datatype py_exception =
    FileNotFoundError
  | NotADirectoryError
  | IsADirectoryError
  | SameFileError
  | IndexError
  | AttributeError
  | OverflowError
  | ZeroDivisionError
  | OtherException string

datatype event =
    Subprocess "string list"
  | Rename string string
  | Remove string
  | Copy2 string string
  | Mkdtemp string
  | Rmtree string
  | BindPort
  | ChatCompletion "string list"

record world =
  fs :: "(string \<times> node) list"
  cwd :: string
  trace :: "event list"

definition resolve :: "world \<Rightarrow> string \<Rightarrow> string" where
  "resolve w p = (if startswith p ''/'' then p else join (cwd w) p)"

definition lookup :: "world \<Rightarrow> string \<Rightarrow> node option" where
  "lookup w p = (if p = [] then None else map_of (fs w) (resolve w p))"

definition exists :: "world \<Rightarrow> string \<Rightarrow> bool" where
  "exists w p = (lookup w p \<noteq> None)"

definition isdir :: "world \<Rightarrow> string \<Rightarrow> bool" where
  "isdir w p = (lookup w p = Some Dir)"

definition getsize :: "world \<Rightarrow> string \<Rightarrow> py_exception + nat" where
  "getsize w p =
     (case lookup w p of
        None \<Rightarrow> Inl FileNotFoundError
      | Some Dir \<Rightarrow> Inr 4096
      | Some (File content) \<Rightarrow> Inr (length content))"

definition log_event :: "event \<Rightarrow> world \<Rightarrow> world" where
  "log_event e w = w\<lparr>trace := trace w @ [e]\<rparr>"

definition entries :: "world \<Rightarrow> string \<Rightarrow> string list" where
  "entries w d =
     remdups [basename k. k \<leftarrow> map fst (fs w), basename k \<noteq> [] \<and> join d (basename k) = k]"

definition listdir :: "world \<Rightarrow> string \<Rightarrow> py_exception + string list" where
  "listdir w p =
     (case lookup w p of
        None \<Rightarrow> Inl FileNotFoundError
      | Some (File content) \<Rightarrow> Inl NotADirectoryError
      | Some Dir \<Rightarrow> Inr (entries w (resolve w p)))"

definition os_chdir :: "string \<Rightarrow> world \<Rightarrow> py_exception option \<times> world" where
  "os_chdir p w =
     (case lookup w p of
        None \<Rightarrow> (Some FileNotFoundError, w)
      | Some (File content) \<Rightarrow> (Some NotADirectoryError, w)
      | Some Dir \<Rightarrow> (None, w\<lparr>cwd := resolve w p\<rparr>))"

definition os_remove :: "string \<Rightarrow> world \<Rightarrow> py_exception option \<times> world" where
  "os_remove p w0 =
     (let w = log_event (Remove p) w0
      in case lookup w p of
           None \<Rightarrow> (Some FileNotFoundError, w)
         | Some Dir \<Rightarrow> (Some IsADirectoryError, w)
         | Some (File content) \<Rightarrow> (None, w\<lparr>fs := AList.delete (resolve w p) (fs w)\<rparr>))"

text \<open>
  \<open>move_tree s d\<close> re-keys the entry \<open>s\<close> and everything below it to \<open>d\<close>.
  \<open>os_rename\<close> is \<^verbatim>\<open>os.rename\<close> on POSIX: the source must exist; a file does not
  replace a directory, nor a directory a file or a non-empty directory; a directory
  does not move below itself; anything else at the destination is replaced.
\<close>

definition move_tree :: "string \<Rightarrow> string \<Rightarrow> (string \<times> node) list \<Rightarrow> (string \<times> node) list" where
  "move_tree s d al =
     map (\<lambda>(k, v). if k = s then (d, v)
                    else if startswith k (join s []) \<and> length (join s []) < length k
                    then (join d [] @ drop (length (join s [])) k, v)
                    else (k, v)) al"

definition os_rename :: "string \<Rightarrow> string \<Rightarrow> world \<Rightarrow> py_exception option \<times> world" where
  "os_rename src dst w0 =
     (let w = log_event (Rename src dst) w0; s = resolve w src; d = resolve w dst;
          moved = w\<lparr>fs := move_tree s d (AList.delete d (fs w))\<rparr>
      in case lookup w src of
           None \<Rightarrow> (Some FileNotFoundError, w)
         | Some n \<Rightarrow>
             if dst = [] then (Some FileNotFoundError, w)
             else if s = d then (None, w)
             else if n = Dir \<and> startswith d (join s []) then (Some (OtherException ''EINVAL''), w)
             else (case (n, lookup w dst) of
                     (File content, Some Dir) \<Rightarrow> (Some IsADirectoryError, w)
                   | (Dir, Some (File content)) \<Rightarrow> (Some NotADirectoryError, w)
                   | (Dir, Some Dir) \<Rightarrow>
                       if entries w d \<noteq> [] then (Some (OtherException ''ENOTEMPTY''), w)
                       else (None, moved)
                   | _ \<Rightarrow> (None, moved)))"

text \<open>
  \<^verbatim>\<open>shutil.copy2(src, dst)\<close>: into the directory when \<open>dst\<close> is one; \<^verbatim>\<open>SameFileError\<close>
  when both name one existing file; the source must be a regular file. Metadata is
  not part of a node, so only the content is copied.
\<close>

definition shutil_copy2 :: "string \<Rightarrow> string \<Rightarrow> world \<Rightarrow> py_exception option \<times> world" where
  "shutil_copy2 src dst0 w0 =
     (let w = log_event (Copy2 src dst0) w0;
          dst = (if isdir w dst0 then join dst0 (basename src) else dst0)
      in if exists w src \<and> dst \<noteq> [] \<and> resolve w src = resolve w dst then (Some SameFileError, w)
         else (case lookup w src of
                 None \<Rightarrow> (Some FileNotFoundError, w)
               | Some Dir \<Rightarrow> (Some IsADirectoryError, w)
               | Some (File content) \<Rightarrow>
                   if dst = [] then (Some FileNotFoundError, w)
                   else if isdir w dst then (Some IsADirectoryError, w)
                   else (None, w\<lparr>fs := AList.update (resolve w dst) (File content) (fs w)\<rparr>)))"

definition shutil_rmtree :: "string \<Rightarrow> world \<Rightarrow> py_exception option \<times> world" where
  "shutil_rmtree p w0 =
     (let w = log_event (Rmtree p) w0; k = resolve w p
      in case lookup w p of
           None \<Rightarrow> (Some FileNotFoundError, w)
         | Some (File content) \<Rightarrow> (Some NotADirectoryError, w)
         | Some Dir \<Rightarrow>
             (None, w\<lparr>fs := filter (\<lambda>(k', v). k' \<noteq> k \<and> \<not> startswith k' (join k [])) (fs w)\<rparr>))"

section \<open>What the program does not contain\<close>

text \<open>
  The environment variables, the operating system's choice of a port and of a
  temporary name, the external processes (\<^verbatim>\<open>ffprobe\<close>, \<^verbatim>\<open>ffmpeg\<close>, \<^verbatim>\<open>torchrun\<close>),
  OpenCV's codecs, the chat completion service and Python's \<^verbatim>\<open>float\<close> are
  parameters: every theorem holds for all of them. A process is given its command
  line, its environment and the world, and either raises in the caller (\<open>Inl\<close>) or
  completes with a return code, its output and the file system it leaves behind.

  The values of \<^verbatim>\<open>float\<close> are a type \<open>'f\<close> of which nothing is assumed (no rounding
  mode, no range; \<^verbatim>\<open>inf\<close> and \<^verbatim>\<open>nan\<close> may be among them). The operations the program
  applies to them are parameters as well: \<open>float_of_str\<close> is \<^verbatim>\<open>float(s)\<close>, \<open>None\<close>
  where it raises \<^verbatim>\<open>ValueError\<close>; \<open>str_of_float\<close> is \<^verbatim>\<open>str(x)\<close>; \<open>float_of_int\<close> is
  the conversion of an \<^verbatim>\<open>int\<close> operand in mixed arithmetic, which raises
  \<^verbatim>\<open>OverflowError\<close> on an integer too large; \<open>float_mul\<close> is the product of two
  floats; \<open>float_truediv\<close> is their quotient, which raises \<^verbatim>\<open>ZeroDivisionError\<close> on
  a zero divisor; \<open>float_le_zero x\<close> is the comparison \<^verbatim>\<open>x <= 0\<close>.

  Every exception here is a subclass of \<^verbatim>\<open>Exception\<close>; signals are outside the model.
  \<^verbatim>\<open>video_processor.py\<close> logs through a logger it creates when it is loaded and
  \<^verbatim>\<open>video_augmentor.py\<close> through the functions of the \<^verbatim>\<open>logging\<close> module: these calls
  return and are left out. The logger of \<^verbatim>\<open>video_orchestrator.py\<close> is a module
  variable, \<^verbatim>\<open>None\<close> until \<^verbatim>\<open>main\<close> assigns it: see the Dataset Orchestrator.
\<close>

record completed_process =
  returncode :: int
  stdout :: string
  stderr :: string

datatype ndarray = NDArray "nat list"

fun nd_size :: "ndarray \<Rightarrow> nat" where
  "nd_size (NDArray elems) = length elems"

record 'f externals =
  environ :: "string \<Rightarrow> string option"
  bind_port :: "world \<Rightarrow> py_exception + nat"
  mkdtemp_name :: "world \<Rightarrow> py_exception + string"
  run_process :: "string list \<Rightarrow> (string \<Rightarrow> string option) \<Rightarrow> world
                    \<Rightarrow> py_exception + completed_process \<times> (string \<times> node) list"
  float_of_str :: "string \<Rightarrow> 'f option"
  str_of_float :: "'f \<Rightarrow> string"
  float_of_int :: "int \<Rightarrow> py_exception + 'f"
  float_mul :: "'f \<Rightarrow> 'f \<Rightarrow> 'f"
  float_truediv :: "'f \<Rightarrow> 'f \<Rightarrow> py_exception + 'f"
  float_le_zero :: "'f \<Rightarrow> bool"
  imdecode :: "string \<Rightarrow> ndarray option"
  imencode_b64 :: "ndarray \<Rightarrow> py_exception + string"
  chat_create :: "string list \<Rightarrow> world \<Rightarrow> py_exception + string option list"

definition subprocess_run ::
  "'f externals \<Rightarrow> string list \<Rightarrow> (string \<Rightarrow> string option) \<Rightarrow> world
     \<Rightarrow> (py_exception + completed_process) \<times> world" where
  "subprocess_run ex cmd env w0 =
     (let w = log_event (Subprocess cmd) w0
      in case run_process ex cmd env w of
           Inl e \<Rightarrow> (Inl e, w)
         | Inr (result, fs') \<Rightarrow> (Inr result, w\<lparr>fs := fs'\<rparr>))"

definition mkdtemp :: "'f externals \<Rightarrow> world \<Rightarrow> (py_exception + string) \<times> world" where
  "mkdtemp ex w =
     (case mkdtemp_name ex w of
        Inl e \<Rightarrow> (Inl e, w)
      | Inr d \<Rightarrow> (Inr d, (log_event (Mkdtemp d) w)\<lparr>fs := AList.update (resolve w d) Dir (fs w)\<rparr>))"

definition imread :: "'f externals \<Rightarrow> world \<Rightarrow> string \<Rightarrow> ndarray option" where
  "imread ex w p =
     (case lookup w p of
        Some (File content) \<Rightarrow> imdecode ex content
      | _ \<Rightarrow> None)"

definition find_free_port :: "'f externals \<Rightarrow> world \<Rightarrow> (py_exception + nat) \<times> world" where
  "find_free_port ex w = (bind_port ex w, log_event BindPort w)"

section \<open>fnmatch and glob\<close>

text \<open>
  \<open>fnmatch name pat\<close> is \<^verbatim>\<open>fnmatch.fnmatchcase\<close>, which \<^verbatim>\<open>fnmatch.filter\<close> applies
  to each name on POSIX. \<open>translate\<close> follows \<^verbatim>\<open>fnmatch.translate\<close>, with a list of
  items in place of the regular expression: \<^verbatim>\<open>*\<close> matches any string, \<^verbatim>\<open>?\<close> any
  character, and \<^verbatim>\<open>[\<close> opens a bracket expression when a \<^verbatim>\<open>]\<close> closes it (after an
  optional \<^verbatim>\<open>!\<close> and an optional first \<^verbatim>\<open>]\<close>) and is a literal otherwise.
  \<open>class_end\<close> finds the closing bracket. A bracket expression with a hyphen is cut
  into chunks at its range hyphens (\<open>split_chunks\<close>: the search for the next hyphen
  starts one character into the expression, two after a leading \<^verbatim>\<open>!\<close>, and two
  characters after each hyphen found); a range whose bounds are out of order is
  removed, from the right (\<open>remove_empty_ranges\<close>); the chunks are joined by range
  hyphens again (\<open>join_chunks\<close>), every other character standing for itself.
  \<open>class_ranges\<close> reads the result as the regular expression compiler reads a
  character set. An expression that is left empty matches nothing (\<open>Never\<close>); a
  leading \<^verbatim>\<open>!\<close> negates.
\<close>

datatype class_atom = Chr char | Hyphen

datatype pattern_item = Star | AnyChar | Lit char | CharClass bool "(char \<times> char) list" | Never

definition has_magic :: "string \<Rightarrow> bool" where
  "has_magic s = list_ex (\<lambda>c. c = CHR ''*'' \<or> c = CHR ''?'' \<or> c = CHR ''['') s"

definition find_from :: "char \<Rightarrow> nat \<Rightarrow> string \<Rightarrow> nat option" where
  "find_from c k s =
     (if list_ex (\<lambda>x. x = c) (drop k s)
      then Some (k + length (takeWhile (\<lambda>x. x \<noteq> c) (drop k s)))
      else None)"

definition class_end :: "string \<Rightarrow> nat option" where
  "class_end rest =
     (let j = (if take 1 rest = ''!'' then 1 else 0);
          j = (if take 1 (drop j rest) = '']'' then j + 1 else j)
      in find_from CHR '']'' j rest)"

function split_chunks :: "string \<Rightarrow> nat \<Rightarrow> string list \<times> string" where
  "split_chunks rest k =
     (case find_from CHR ''-'' k rest of
        None \<Rightarrow> ([], rest)
      | Some p \<Rightarrow>
          (case split_chunks (drop (Suc p) rest) 2 of
             (chunks, chunk) \<Rightarrow> (take p rest # chunks, chunk)))"
  by pat_completeness auto
termination
proof (relation "measure (\<lambda>(rest, k). length rest)")
  show "wf (measure (\<lambda>(rest, k). length rest))" by simp
next
  fix rest :: string and k p
  assume "find_from CHR ''-'' k rest = Some p"
  then have "rest \<noteq> []"
    by (auto simp: find_from_def split: if_splits)
  then show "((drop (Suc p) rest, 2), (rest, k)) \<in> measure (\<lambda>(rest, k). length rest)"
    by (cases rest) auto
qed

declare split_chunks.simps [simp del]

fun remove_empty_ranges :: "nat \<Rightarrow> string list \<Rightarrow> string list" where
  "remove_empty_ranges 0 chunks = chunks"
| "remove_empty_ranges (Suc m) chunks =
     remove_empty_ranges m
       (let a = chunks ! m; b = chunks ! Suc m
        in if a \<noteq> [] \<and> b \<noteq> [] \<and> (of_char (hd b) :: nat) < of_char (last a)
           then take m chunks @ [butlast a @ tl b] @ drop (Suc (Suc m)) chunks
           else chunks)"

fun join_chunks :: "string list \<Rightarrow> class_atom list" where
  "join_chunks [] = []"
| "join_chunks [chunk] = map Chr chunk"
| "join_chunks (chunk # chunks) = map Chr chunk @ Hyphen # join_chunks chunks"

definition class_atoms :: "string \<Rightarrow> class_atom list" where
  "class_atoms stuff =
     (if \<not> list_ex (\<lambda>c. c = CHR ''-'') stuff then map Chr stuff
      else (case split_chunks stuff (if take 1 stuff = ''!'' then 2 else 1) of
              (chunks, chunk) \<Rightarrow>
                (let chunks = (if chunk \<noteq> [] then chunks @ [chunk]
                               else butlast chunks @ [last chunks @ ''-''])
                 in join_chunks (remove_empty_ranges (length chunks - 1) chunks))))"

fun atom_char :: "class_atom \<Rightarrow> char" where
  "atom_char (Chr c) = c"
| "atom_char Hyphen = CHR ''-''"

fun class_ranges :: "class_atom list \<Rightarrow> (char \<times> char) list" where
  "class_ranges [] = []"
| "class_ranges [x] = [(atom_char x, atom_char x)]"
| "class_ranges [x, Hyphen] = [(atom_char x, atom_char x), (CHR ''-'', CHR ''-'')]"
| "class_ranges (x # Hyphen # y # rest) = (atom_char x, atom_char y) # class_ranges rest"
| "class_ranges (x # Chr c # rest) = (atom_char x, atom_char x) # class_ranges (Chr c # rest)"

definition class_item :: "string \<Rightarrow> pattern_item" where
  "class_item stuff =
     (let atoms = class_atoms stuff
      in if atoms = [] then Never
         else if atoms = [Chr CHR ''!''] then AnyChar
         else if hd atoms = Chr CHR ''!'' then CharClass True (class_ranges (tl atoms))
         else CharClass False (class_ranges atoms))"

function translate :: "string \<Rightarrow> pattern_item list" where
  "translate [] = []"
| "translate (c # rest) =
     (if c = CHR ''*'' then Star # translate rest
      else if c = CHR ''?'' then AnyChar # translate rest
      else if c = CHR ''[''
      then (case class_end rest of
              None \<Rightarrow> Lit CHR ''['' # translate rest
            | Some j \<Rightarrow> class_item (take j rest) # translate (drop (Suc j) rest))
      else Lit c # translate rest)"
  by pat_completeness auto
termination
  by (relation "measure length") auto

declare translate.simps [simp del]

fun item_matches :: "pattern_item \<Rightarrow> char \<Rightarrow> bool" where
  "item_matches Star c = True"
| "item_matches AnyChar c = True"
| "item_matches (Lit x) c = (x = c)"
| "item_matches (CharClass negated ranges) c =
     (list_ex (\<lambda>(lo, hi). (of_char lo :: nat) \<le> of_char c \<and> (of_char c :: nat) \<le> of_char hi) ranges
        \<noteq> negated)"
| "item_matches Never c = False"

fun items_match :: "pattern_item list \<Rightarrow> string \<Rightarrow> bool" where
  "items_match [] name = (name = [])"
| "items_match (Star # items) [] = items_match items []"
| "items_match (Star # items) (c # cs) = (items_match items (c # cs) \<or> items_match (Star # items) cs)"
| "items_match (item # items) [] = False"
| "items_match (item # items) (c # cs) = (item_matches item c \<and> items_match items cs)"

definition fnmatch :: "string \<Rightarrow> string \<Rightarrow> bool" where
  "fnmatch name pat = items_match (translate pat) name"

text \<open>
  \<open>glob\<close> is \<^verbatim>\<open>glob.glob(pathname)\<close> and \<open>iglob\<close> its generator \<^verbatim>\<open>_iglob\<close>, not
  recursive and without hidden names: \<open>glob1\<close> lists a directory (the working
  directory for the empty name; only the subdirectories when \<open>dironly\<close>; nothing
  when it cannot be listed) and filters the names, \<open>glob0\<close> looks up one literal
  name. When the directory part of the pattern has magic characters itself, it is
  expanded first, and each directory found is searched in turn.
\<close>

definition glob1 :: "world \<Rightarrow> string \<Rightarrow> string \<Rightarrow> bool \<Rightarrow> string list" where
  "glob1 w dir pattern dironly =
     (let names = (case listdir w (if dir = [] then cwd w else dir) of
                     Inl e \<Rightarrow> []
                   | Inr ns \<Rightarrow> [n \<leftarrow> ns. \<not> dironly \<or> isdir w (join dir n)]);
          names = (if \<not> startswith pattern ''.'' then [n \<leftarrow> names. \<not> startswith n ''.'']
                   else names)
      in [n \<leftarrow> names. fnmatch n pattern])"

definition glob0 :: "world \<Rightarrow> string \<Rightarrow> string \<Rightarrow> string list" where
  "glob0 w dir name =
     (if name \<noteq> []
      then (if exists w (join dir name) then [name] else [])
      else if isdir w dir then [name] else [])"

function iglob :: "world \<Rightarrow> bool \<Rightarrow> string \<Rightarrow> string list" where
  "iglob w dironly pathname =
     (if \<not> has_magic pathname
      then (if basename pathname \<noteq> []
            then (if exists w pathname then [pathname] else [])
            else if isdir w (dirname pathname) then [pathname] else [])
      else if dirname pathname = [] then glob1 w [] (basename pathname) dironly
      else concat
             (map (\<lambda>d. map (join d)
                          (if has_magic (basename pathname)
                           then glob1 w d (basename pathname) dironly
                           else glob0 w d (basename pathname)))
                (if dirname pathname \<noteq> pathname \<and> has_magic (dirname pathname)
                 then iglob w True (dirname pathname)
                 else [dirname pathname])))"
  by pat_completeness auto
termination
proof (relation "measure (\<lambda>(w, dironly, pathname). length pathname)")
  show "wf (measure (\<lambda>(w, dironly, pathname). length pathname))" by simp
next
  fix w :: world and dironly :: bool and pathname :: string
  assume "dirname pathname \<noteq> pathname \<and> has_magic (dirname pathname)"
  then have neq: "dirname pathname \<noteq> pathname" by simp
  have le: "length (dropWhile P xs) \<le> length xs" for P :: "char \<Rightarrow> bool" and xs
    by (induction xs) auto
  let ?head = "rev (dropWhile (\<lambda>c. c \<noteq> CHR ''/'') (rev pathname))"
  have h: "length ?head \<le> length pathname"
    using le [of "\<lambda>c. c \<noteq> CHR ''/''" "rev pathname"] by simp
  have d: "length (dirname pathname) \<le> length ?head"
    using le [of "\<lambda>c. c = CHR ''/''" "rev ?head"] by (simp add: dirname_def Let_def)
  have "length (dirname pathname) < length pathname"
  proof (rule ccontr)
    assume "\<not> length (dirname pathname) < length pathname"
    then have eq1: "length ?head = length pathname" and eq2: "length (dirname pathname) = length ?head"
      using h d by simp_all
    have "dropWhile (\<lambda>c. c \<noteq> CHR ''/'') (rev pathname) = rev pathname"
      using eq1 by (metis (no_types, lifting) dropWhile_eq_drop length_rev length_drop
          diff_diff_cancel drop0 length_takeWhile_le diff_self_eq_0)
    then have head: "?head = pathname" by simp
    have "dirname pathname = pathname"
    proof (cases "?head \<noteq> [] \<and> list_ex (\<lambda>c. c \<noteq> CHR ''/'') ?head")
      case True
      then have dn: "dirname pathname = rev (dropWhile (\<lambda>c. c = CHR ''/'') (rev ?head))"
        by (simp add: dirname_def Let_def)
      have "length (dropWhile (\<lambda>c. c = CHR ''/'') (rev ?head)) = length (rev ?head)"
        using eq2 dn by simp
      then have "dropWhile (\<lambda>c. c = CHR ''/'') (rev ?head) = rev ?head"
        by (metis (no_types, lifting) dropWhile_eq_drop length_drop
          diff_diff_cancel drop0 length_takeWhile_le diff_self_eq_0)
      then show ?thesis using dn head by simp
    next
      case False
      then show ?thesis using head by (auto simp add: dirname_def Let_def)
    qed
    then show False using neq by simp
  qed
  then show "((w, True, dirname pathname), (w, dironly, pathname))
               \<in> measure (\<lambda>(w, dironly, pathname). length pathname)"
    by simp
qed

declare iglob.simps [simp del]

definition glob :: "world \<Rightarrow> string \<Rightarrow> string list" where
  "glob w pathname = iglob w False pathname"

section \<open>Episode Allocator\<close>

text \<open>
  \<^verbatim>\<open>get_next_episode_number(video_folder)\<close> of \<^verbatim>\<open>video_orchestrator.py\<close>. The loop
  over the matching files collects the indices that \<^verbatim>\<open>int\<close> accepts.
\<close>

fun episode_numbers :: "string list \<Rightarrow> int list" where
  "episode_numbers [] = []"
| "episode_numbers (file # files) =
     (let filename = basename file;
          episode_num = replace_empty (replace_empty filename ''episode_'') ''.mp4''
      in case int_of_str episode_num of
           Some k \<Rightarrow> k # episode_numbers files
         | None \<Rightarrow> episode_numbers files)"

definition get_next_episode_number :: "world \<Rightarrow> string \<Rightarrow> int" where
  "get_next_episode_number w video_folder =
     (let existing_files = glob w (join video_folder ''episode_*.mp4'')
      in if existing_files = [] then 0
         else (let nums = episode_numbers existing_files
               in if nums \<noteq> [] then Max (set nums) + 1 else 0))"

section \<open>Frame Sampler\<close>

text \<open>
  \<^verbatim>\<open>extract_frames_from_video(video_path, num_frames)\<close> of \<^verbatim>\<open>video_processor.py\<close>,
  the same in both copies of the file (the asynchronous copy awaits each process
  where the other one blocks). \<open>timestamp ex i duration num_frames\<close> is the
  expression \<^verbatim>\<open>i * duration / num_frames\<close> as Python evaluates it: \<^verbatim>\<open>i\<close> is converted
  and multiplied by the duration, then \<^verbatim>\<open>num_frames\<close> is converted and divides the
  product; \<open>comprehension\<close> is a list comprehension, which the first exception
  ends, and \<open>time_intervals\<close> the one over \<^verbatim>\<open>range(num_frames)\<close>. \<open>extract_loop\<close> is
  the loop over its enumeration, and
  \<open>extract_frames_body\<close> what stands between the creation of the temporary
  directory and the handlers, which \<open>extract_frames_from_video\<close> adds: any
  exception gives the empty list, and the directory is removed at the end.
\<close>

definition timestamp :: "'f externals \<Rightarrow> int \<Rightarrow> 'f \<Rightarrow> int \<Rightarrow> py_exception + 'f" where
  "timestamp ex i duration num_frames =
     (case float_of_int ex i of
        Inl e \<Rightarrow> Inl e
      | Inr x \<Rightarrow>
          (case float_of_int ex num_frames of
             Inl e \<Rightarrow> Inl e
           | Inr n \<Rightarrow> float_truediv ex (float_mul ex x duration) n))"

fun comprehension :: "('a \<Rightarrow> py_exception + 'b) \<Rightarrow> 'a list \<Rightarrow> py_exception + 'b list" where
  "comprehension f [] = Inr []"
| "comprehension f (x # xs) =
     (case f x of
        Inl e \<Rightarrow> Inl e
      | Inr y \<Rightarrow> (case comprehension f xs of Inl e \<Rightarrow> Inl e | Inr ys \<Rightarrow> Inr (y # ys)))"

definition time_intervals :: "'f externals \<Rightarrow> 'f \<Rightarrow> int \<Rightarrow> py_exception + 'f list" where
  "time_intervals ex duration num_frames =
     comprehension (\<lambda>i. timestamp ex i duration num_frames) [0..num_frames - 1]"

definition ffmpeg_cmd :: "'f externals \<Rightarrow> string \<Rightarrow> 'f \<Rightarrow> string \<Rightarrow> string list" where
  "ffmpeg_cmd ex video_path time_pos frame_path =
     [''ffmpeg'', ''-y'', ''-i'', video_path, ''-ss'', str_of_float ex time_pos,
      ''-vframes'', ''1'', ''-q:v'', ''2'', frame_path]"

definition frame_path :: "string \<Rightarrow> nat \<Rightarrow> string" where
  "frame_path temp_dir i = join temp_dir (''frame_'' @ format_d 3 (int i) @ ''.jpg'')"

fun extract_loop ::
  "'f externals \<Rightarrow> string \<Rightarrow> string \<Rightarrow> (nat \<times> 'f) list \<Rightarrow> ndarray list \<Rightarrow> world
     \<Rightarrow> (py_exception + ndarray list) \<times> world" where
  "extract_loop ex video_path temp_dir [] frames w = (Inr frames, w)"
| "extract_loop ex video_path temp_dir ((i, time_pos) # rest) frames w =
     (case subprocess_run ex (ffmpeg_cmd ex video_path time_pos (frame_path temp_dir i))
             (environ ex) w of
           (Inl e, w1) \<Rightarrow> (Inl e, w1)
         | (Inr result, w1) \<Rightarrow>
             if returncode result = 0 \<and> exists w1 (frame_path temp_dir i)
             then (case imread ex w1 (frame_path temp_dir i) of
                     Some frame \<Rightarrow>
                       if nd_size frame > 0
                       then extract_loop ex video_path temp_dir rest (frames @ [frame]) w1
                       else extract_loop ex video_path temp_dir rest frames w1
                   | None \<Rightarrow> extract_loop ex video_path temp_dir rest frames w1)
             else extract_loop ex video_path temp_dir rest frames w1)"

definition duration_cmd :: "string \<Rightarrow> string list" where
  "duration_cmd video_path =
     [''ffprobe'', ''-v'', ''quiet'', ''-show_entries'', ''format=duration'',
      ''-of'', ''csv=p=0'', video_path]"

definition extract_frames_body ::
  "'f externals \<Rightarrow> string \<Rightarrow> int \<Rightarrow> string \<Rightarrow> world \<Rightarrow> (py_exception + ndarray list) \<times> world" where
  "extract_frames_body ex video_path num_frames temp_dir w =
     (case subprocess_run ex (duration_cmd video_path) (environ ex) w of
        (Inl e, w1) \<Rightarrow> (Inl e, w1)
      | (Inr duration_result, w1) \<Rightarrow>
          if returncode duration_result \<noteq> 0 then (Inr [], w1)
          else (case float_of_str ex (strip (stdout duration_result)) of
                  None \<Rightarrow> (Inr [], w1)
                | Some duration \<Rightarrow>
                    if float_le_zero ex duration then (Inr [], w1)
                    else (case time_intervals ex duration num_frames of
                            Inl e \<Rightarrow> (Inl e, w1)
                          | Inr intervals \<Rightarrow>
                              extract_loop ex video_path temp_dir (enumerate 0 intervals) [] w1)))"

definition extract_frames_from_video ::
  "'f externals \<Rightarrow> string \<Rightarrow> int \<Rightarrow> world \<Rightarrow> ndarray list \<times> world" where
  "extract_frames_from_video ex video_path num_frames w =
     (case mkdtemp ex w of
        (Inl e, w1) \<Rightarrow> ([], w1)
      | (Inr temp_dir, w1) \<Rightarrow>
          (case extract_frames_body ex video_path num_frames temp_dir w1 of
             (r, w2) \<Rightarrow>
               (case r of Inl e \<Rightarrow> [] | Inr frames \<Rightarrow> frames,
                if temp_dir \<noteq> [] \<and> exists w2 temp_dir then snd (shutil_rmtree temp_dir w2)
                else w2)))"

section \<open>Content Describer\<close>

text \<open>
  \<^verbatim>\<open>analyze_video_with_openai(frames)\<close>. A frame is \<open>None\<close> or an array. The two
  copies of \<^verbatim>\<open>video_processor.py\<close> differ in the string the exception handler
  returns, which \<open>analyze_video\<close> takes as its first argument:
  \<open>analyze_video_with_openai\<close> is the one of \<^verbatim>\<open>for_clients/video_processor.py\<close>,
  \<open>analyze_video_with_openai_async\<close> the one of \<^verbatim>\<open>video_processor.py\<close>. The
  service answers with the contents of its choices; an empty list of choices is an
  \<^verbatim>\<open>IndexError\<close> and a content that is \<^verbatim>\<open>None\<close> an \<^verbatim>\<open>AttributeError\<close>.
\<close>

definition encode_frame_to_base64 :: "'f externals \<Rightarrow> ndarray \<Rightarrow> string option" where
  "encode_frame_to_base64 ex frame =
     (case imencode_b64 ex frame of Inl e \<Rightarrow> None | Inr frame_base64 \<Rightarrow> Some frame_base64)"

fun encode_frames :: "'f externals \<Rightarrow> ndarray option list \<Rightarrow> string list" where
  "encode_frames ex [] = []"
| "encode_frames ex (None # frames) = encode_frames ex frames"
| "encode_frames ex (Some frame # frames) =
     (if nd_size frame = 0 then encode_frames ex frames
      else (case encode_frame_to_base64 ex frame of
              Some encoded_frame \<Rightarrow>
                if encoded_frame \<noteq> []
                then (''data:image/jpeg;base64,'' @ encoded_frame) # encode_frames ex frames
                else encode_frames ex frames
            | None \<Rightarrow> encode_frames ex frames))"

definition analyze_video_body ::
  "'f externals \<Rightarrow> ndarray option list \<Rightarrow> world \<Rightarrow> (py_exception + string) \<times> world" where
  "analyze_video_body ex frames w =
     (if frames = [] then (Inr ''a video sequence'', w)
      else (let encoded_frames = encode_frames ex frames
            in if encoded_frames = [] then (Inr ''a video sequence'', w)
               else (let w1 = log_event (ChatCompletion encoded_frames) w
                     in case chat_create ex encoded_frames w1 of
                          Inl e \<Rightarrow> (Inl e, w1)
                        | Inr [] \<Rightarrow> (Inl IndexError, w1)
                        | Inr (None # choices) \<Rightarrow> (Inl AttributeError, w1)
                        | Inr (Some content # choices) \<Rightarrow> (Inr (strip content), w1))))"

definition analyze_video ::
  "string \<Rightarrow> 'f externals \<Rightarrow> ndarray option list \<Rightarrow> world \<Rightarrow> string \<times> world" where
  "analyze_video on_exception ex frames w =
     (case analyze_video_body ex frames w of
        (Inl e, w1) \<Rightarrow> (on_exception, w1)
      | (Inr description, w1) \<Rightarrow> (description, w1))"

definition analyze_video_with_openai ::
  "'f externals \<Rightarrow> ndarray option list \<Rightarrow> world \<Rightarrow> string \<times> world" where
  "analyze_video_with_openai =
     analyze_video ''a video sequence with robotic manipulation tasks''"

definition analyze_video_with_openai_async ::
  "'f externals \<Rightarrow> ndarray option list \<Rightarrow> world \<Rightarrow> string \<times> world" where
  "analyze_video_with_openai_async =
     analyze_video ''a robot is performing manipulation tasks''"

text \<open>\<^verbatim>\<open>generate_video_prompt(video_path)\<close> of \<^verbatim>\<open>for_clients/video_processor.py\<close>.\<close>

definition generate_video_prompt :: "'f externals \<Rightarrow> string \<Rightarrow> world \<Rightarrow> string \<times> world" where
  "generate_video_prompt ex video_path w =
     (if environ ex ''OPENAI_API_KEY'' = None \<or> environ ex ''OPENAI_API_KEY'' = Some []
      then (''a video sequence with robotic manipulation tasks'', w)
      else (case extract_frames_from_video ex video_path 6 w of
              (frames, w1) \<Rightarrow>
                if frames \<noteq> [] then analyze_video_with_openai ex (map Some frames) w1
                else (''a video sequence with robotic manipulation tasks'', w1)))"

section \<open>Augmentation Invoker\<close>

text \<open>
  \<^verbatim>\<open>augment_video(prompt, input_video_path, output_video_path)\<close> of
  \<^verbatim>\<open>video_augmentor.py\<close>. \<open>augment_video_body\<close> is the body of the \<^verbatim>\<open>try\<close>
  statement: \<open>run_transfer\<close> is its part up to and including \<^verbatim>\<open>subprocess.run\<close>,
  \<open>verify_output\<close> is the check of the output file with the renaming of a
  doubled extension and \<open>cleanup_txt\<close> the removal of the text files, each removal
  with its own handler. \<open>env_get\<close> is \<^verbatim>\<open>env.get(k, dflt)\<close>; the keys the command line
  reads with \<^verbatim>\<open>env[k]\<close> were set just before, so that no default is used there.
\<close>

definition env_get :: "(string \<Rightarrow> string option) \<Rightarrow> string \<Rightarrow> string \<Rightarrow> string" where
  "env_get env k dflt = (case env k of Some v \<Rightarrow> v | None \<Rightarrow> dflt)"

definition torchrun_cmd ::
  "string \<Rightarrow> string \<Rightarrow> nat \<Rightarrow> string \<Rightarrow> string \<Rightarrow> string \<Rightarrow> string list" where
  "torchrun_cmd num_gpu checkpoint_dir free_port prompt input_video_path output_video_path =
     (let output_name = basename output_video_path;
          output_name = (if endswith output_name ''.mp4''
                         then take (length output_name - 4) output_name else output_name)
      in [''torchrun'',
          ''--nproc_per_node='' @ num_gpu,
          ''--nnodes=1'',
          ''--node_rank=0'',
          ''--master_port='' @ str_nat free_port,
          ''cosmos_transfer1/diffusion/inference/transfer.py'',
          ''--prompt'', prompt,
          ''--checkpoint_dir'', checkpoint_dir,
          ''--video_save_folder'', dirname output_video_path,
          ''--video_save_name'', output_name,
          ''--input_video_path'', input_video_path,
          ''--controlnet_specs'', ''assets/augment.json'',
          ''--offload_text_encoder_model'',
          ''--num_steps'', ''20'',
          ''--offload_guardrail_models'',
          ''--num_gpus'', num_gpu])"

definition verify_output :: "string \<Rightarrow> world \<Rightarrow> (py_exception + bool) \<times> world" where
  "verify_output output_video_path w =
     (if exists w output_video_path
      then (case getsize w output_video_path of
              Inl e \<Rightarrow> (Inl e, w)
            | Inr file_size \<Rightarrow> (Inr True, w))
      else (let double_ext_path = output_video_path @ ''.mp4''
            in if exists w double_ext_path
               then (case os_rename double_ext_path output_video_path w of
                       (Some e, w1) \<Rightarrow> (Inl e, w1)
                     | (None, w1) \<Rightarrow> (Inr True, w1))
               else (Inr False, w)))"

fun remove_files :: "string list \<Rightarrow> world \<Rightarrow> world" where
  "remove_files [] w = w"
| "remove_files (txt_file # txt_files) w = remove_files txt_files (snd (os_remove txt_file w))"

definition txt_pattern :: "string \<Rightarrow> string" where
  "txt_pattern output_video_path =
     (let output_dir = dirname output_video_path;
          video_basename = fst (splitext (basename output_video_path))
      in join output_dir (video_basename @ ''*.txt''))"

definition cleanup_txt :: "string \<Rightarrow> world \<Rightarrow> world" where
  "cleanup_txt output_video_path w =
     remove_files (glob w (txt_pattern output_video_path)) w"

definition run_transfer ::
  "'f externals \<Rightarrow> string \<Rightarrow> string \<Rightarrow> string \<Rightarrow> world
     \<Rightarrow> (py_exception + completed_process) \<times> world" where
  "run_transfer ex prompt input_video_path output_video_path w =
     (let env = environ ex;
          env = env(''CUDA_VISIBLE_DEVICES'' \<mapsto> env_get env ''CUDA_VISIBLE_DEVICES'' ''0'');
          env = env(''CHECKPOINT_DIR'' \<mapsto> env_get env ''CHECKPOINT_DIR'' ''./checkpoints'');
          env = env(''NUM_GPU'' \<mapsto> env_get env ''NUM_GPU'' ''1'');
          env = env(''PYTORCH_CUDA_ALLOC_CONF'' \<mapsto> ''expandable_segments:True'');
          env = env(''CUDA_LAUNCH_BLOCKING'' \<mapsto> ''1'')
      in case os_chdir ''/root/cosmos-transfer1'' w of
           (Some e, w1) \<Rightarrow> (Inl e, w1)
         | (None, w1) \<Rightarrow>
             (let env = env(''PYTHONPATH'' \<mapsto> cwd w1)
              in case find_free_port ex w1 of
                   (Inl e, w2) \<Rightarrow> (Inl e, w2)
                 | (Inr free_port, w2) \<Rightarrow>
                     subprocess_run ex
                       (torchrun_cmd (env_get env ''NUM_GPU'' []) (env_get env ''CHECKPOINT_DIR'' [])
                          free_port prompt input_video_path output_video_path)
                       env w2))"

definition augment_video_body ::
  "'f externals \<Rightarrow> string \<Rightarrow> string \<Rightarrow> string \<Rightarrow> world \<Rightarrow> (py_exception + bool) \<times> world" where
  "augment_video_body ex prompt input_video_path output_video_path w =
     (case run_transfer ex prompt input_video_path output_video_path w of
        (Inl e, w3) \<Rightarrow> (Inl e, w3)
      | (Inr result, w3) \<Rightarrow>
          if returncode result = 0
          then (case verify_output output_video_path w3 of
                  (Inl e, w4) \<Rightarrow> (Inl e, w4)
                | (Inr False, w4) \<Rightarrow> (Inr False, w4)
                | (Inr True, w4) \<Rightarrow> (Inr True, cleanup_txt output_video_path w4))
          else (Inr False, w3))"

definition augment_video ::
  "'f externals \<Rightarrow> string \<Rightarrow> string \<Rightarrow> string \<Rightarrow> world \<Rightarrow> (py_exception + bool) \<times> world" where
  "augment_video ex prompt input_video_path output_video_path w =
     (case augment_video_body ex prompt input_video_path output_video_path w of
        (Inl e, w1) \<Rightarrow> (Inr False, w1)
      | (Inr success, w1) \<Rightarrow> (Inr success, w1))"

section \<open>Dataset Orchestrator\<close>

text \<open>
  \<^verbatim>\<open>copy_parquet_file\<close> and \<^verbatim>\<open>process_dataset\<close> of \<^verbatim>\<open>video_orchestrator.py\<close>.
  The module variable \<^verbatim>\<open>logger\<close> is \<open>NoLogger\<close> (\<^verbatim>\<open>None\<close>) until \<^verbatim>\<open>main\<close> assigns
  it, and a call of one of its methods then raises \<^verbatim>\<open>AttributeError\<close>
  (\<open>logger_call\<close>). \<open>copy_parquet_file\<close> takes the variable as its first argument: it
  logs after the copy inside the \<^verbatim>\<open>try\<close> statement, in the handler, and when the
  source is missing. \<^verbatim>\<open>process_dataset\<close> logs before it returns or copies anything,
  on every path but the one where the listing raises, so that it gets as far as
  \<open>copy_loop\<close> only with a logger: \<open>process_dataset\<close> is the function with the
  logger that \<^verbatim>\<open>main\<close> has set up, and \<open>copy_loop\<close> passes \<open>Logger\<close>.
  \<open>validate_sources\<close>, \<open>copy_loop\<close>, \<open>camera_loop\<close> and \<open>episode_loop\<close> are the
  loops of \<^verbatim>\<open>process_dataset\<close>, in its order; the counters are
  \<^verbatim>\<open>total_success\<close> and \<^verbatim>\<open>total_attempts\<close>. \<open>videos_path_of\<close> and
  \<open>data_path_of\<close> are its first three assignments, and \<open>camera_folders\<close> is the
  comprehension over the listing that gives \<^verbatim>\<open>observation_folders\<close>.
\<close>

definition DATASETS_BASE :: string where
  "DATASETS_BASE = ''/root/synphony/datasets''"

definition parquet_name :: "int \<Rightarrow> string" where
  "parquet_name i = ''episode_'' @ format_d 6 i @ ''.parquet''"

definition video_name :: "int \<Rightarrow> string" where
  "video_name i = ''episode_'' @ format_d 6 i @ ''.mp4''"

datatype logger = NoLogger | Logger

definition logger_call :: "logger \<Rightarrow> py_exception option" where
  "logger_call lg = (case lg of NoLogger \<Rightarrow> Some AttributeError | Logger \<Rightarrow> None)"

definition copy_parquet_file ::
  "logger \<Rightarrow> int \<Rightarrow> int \<Rightarrow> string \<Rightarrow> world \<Rightarrow> (py_exception + bool) \<times> world" where
  "copy_parquet_file lg src_episode_num dest_episode_num data_folder w =
     (let src_parquet = join data_folder (parquet_name src_episode_num);
          dest_parquet = join data_folder (parquet_name dest_episode_num);
          handler = (\<lambda>w1. case logger_call lg of
                            Some e \<Rightarrow> (Inl e, w1)
                          | None \<Rightarrow> (Inr False, w1))
      in if exists w src_parquet
         then (case shutil_copy2 src_parquet dest_parquet w of
                 (Some e, w1) \<Rightarrow> handler w1
               | (None, w1) \<Rightarrow>
                   (case logger_call lg of
                      Some e \<Rightarrow> handler w1
                    | None \<Rightarrow> (Inr True, w1)))
         else (case logger_call lg of
                 Some e \<Rightarrow> (Inl e, w)
               | None \<Rightarrow> (Inr False, w)))"

fun validate_sources :: "world \<Rightarrow> string \<Rightarrow> int list \<Rightarrow> bool" where
  "validate_sources w data_path [] = True"
| "validate_sources w data_path (i # rest) =
     (if \<not> exists w (join data_path (parquet_name i)) then False
      else validate_sources w data_path rest)"

fun copy_loop :: "int \<Rightarrow> string \<Rightarrow> int list \<Rightarrow> world \<Rightarrow> py_exception option \<times> world" where
  "copy_loop next_episode_num data_path [] w = (None, w)"
| "copy_loop next_episode_num data_path (i # rest) w =
     (case copy_parquet_file Logger i (next_episode_num + i) data_path w of
        (Inl e, w1) \<Rightarrow> (Some e, w1)
      | (Inr copied, w1) \<Rightarrow> copy_loop next_episode_num data_path rest w1)"

fun camera_loop ::
  "'f externals \<Rightarrow> string \<Rightarrow> int \<Rightarrow> int \<Rightarrow> string list \<Rightarrow> nat \<times> nat \<times> world \<Rightarrow> nat \<times> nat \<times> world" where
  "camera_loop ex videos_path src_episode dest_episode [] st = st"
| "camera_loop ex videos_path src_episode dest_episode (obs_folder # rest)
       (total_success, total_attempts, w) =
     (let obs_path = join videos_path obs_folder;
          src_video_path = join obs_path (video_name src_episode);
          dest_video_path = join obs_path (video_name dest_episode)
      in if \<not> exists w src_video_path
         then camera_loop ex videos_path src_episode dest_episode rest
                (total_success, total_attempts, w)
         else (case generate_video_prompt ex src_video_path w of
                 (prompt, w1) \<Rightarrow>
                   (case augment_video ex prompt src_video_path dest_video_path w1 of
                      (Inr success, w2) \<Rightarrow>
                        camera_loop ex videos_path src_episode dest_episode rest
                          (if success then total_success + 1 else total_success,
                           total_attempts + 1, w2)
                    | (Inl e, w2) \<Rightarrow>
                        camera_loop ex videos_path src_episode dest_episode rest
                          (total_success, total_attempts + 1, w2))))"

fun episode_loop ::
  "'f externals \<Rightarrow> string \<Rightarrow> string list \<Rightarrow> int \<Rightarrow> int list \<Rightarrow> nat \<times> nat \<times> world \<Rightarrow> nat \<times> nat \<times> world" where
  "episode_loop ex videos_path observation_folders next_episode_num [] st = st"
| "episode_loop ex videos_path observation_folders next_episode_num (i # rest) st =
     episode_loop ex videos_path observation_folders next_episode_num rest
       (camera_loop ex videos_path i (next_episode_num + i) observation_folders st)"

definition videos_path_of :: "string \<Rightarrow> string" where
  "videos_path_of dataset_name =
     (let dataset_path = join DATASETS_BASE dataset_name
      in join (join dataset_path ''videos'') ''chunk-000'')"

definition data_path_of :: "string \<Rightarrow> string" where
  "data_path_of dataset_name =
     (let dataset_path = join DATASETS_BASE dataset_name
      in join (join dataset_path ''data'') ''chunk-000'')"

definition camera_folders :: "world \<Rightarrow> string \<Rightarrow> string list \<Rightarrow> string list" where
  "camera_folders w videos_path names =
     [d \<leftarrow> names. isdir w (join videos_path d) \<and> startswith d ''observation.images.'']"

definition process_dataset ::
  "'f externals \<Rightarrow> string \<Rightarrow> int \<Rightarrow> world \<Rightarrow> (py_exception + bool) \<times> world" where
  "process_dataset ex dataset_name n_episodes w =
     (let videos_path = videos_path_of dataset_name;
          data_path = data_path_of dataset_name
      in if \<not> exists w videos_path then (Inr False, w)
         else if \<not> exists w data_path then (Inr False, w)
         else (case listdir w videos_path of
                 Inl e \<Rightarrow> (Inl e, w)
               | Inr names \<Rightarrow>
                   (case camera_folders w videos_path names of
                      [] \<Rightarrow> (Inr False, w)
                    | first_obs_folder # other_folders \<Rightarrow>
                        if \<not> validate_sources w data_path [0..n_episodes - 1] then (Inr False, w)
                        else (let observation_folders = first_obs_folder # other_folders;
                                  first_obs_path = join videos_path first_obs_folder;
                                  next_episode_num = get_next_episode_number w first_obs_path
                              in case copy_loop next_episode_num data_path [0..n_episodes - 1] w of
                                   (Some e, w1) \<Rightarrow> (Inl e, w1)
                                 | (None, w1) \<Rightarrow>
                                     (case episode_loop ex videos_path observation_folders
                                             next_episode_num [0..n_episodes - 1] (0, 0, w1) of
                                        (total_success, total_attempts, w2) \<Rightarrow>
                                          (Inr (total_success = total_attempts), w2))))))"

section \<open>Example worlds\<close>

text \<open>
  Concrete parameters and worlds on which the theorems below are instantiated:
  \<open>example_externals run\<close> has the credential set, one port, one temporary name and
  fixed codecs, and \<open>run\<close> as its external processes; its floats are real numbers,
  with the exact product and quotient, read and printed as Python reads and prints
  the floats 0, 2, 4 and 6, on which the arithmetic of \<^verbatim>\<open>float\<close> is exact; \<open>tool_raises\<close> cannot be
  started, \<open>tool_writes path content\<close> exits with status 0 and leaves \<open>content\<close> at
  \<open>path\<close>, \<open>tool_exits code out\<close> prints \<open>out\<close> and exits with status \<open>code\<close>. The
  worlds \<open>dataset_...\<close> hold a dataset \<^verbatim>\<open>d\<close> in three states, and
  \<open>videos_bracket_folder\<close> a camera folder with brackets in its name.
\<close>

definition example_externals ::
  "(string list \<Rightarrow> (string \<Rightarrow> string option) \<Rightarrow> world
      \<Rightarrow> py_exception + completed_process \<times> (string \<times> node) list) \<Rightarrow> real externals" where
  "example_externals run =
     \<lparr>environ = (\<lambda>k. if k = ''OPENAI_API_KEY'' then Some ''sk-test'' else None),
      bind_port = (\<lambda>w. Inr 29500),
      mkdtemp_name = (\<lambda>w. Inr ''/tmp/tmpframes''),
      run_process = run,
      float_of_str = (\<lambda>s. if s = ''6.0'' then Some 6 else None),
      str_of_float = (\<lambda>x. if x = 0 then ''0.0'' else if x = 2 then ''2.0''
                          else if x = 4 then ''4.0'' else ''6.0''),
      float_of_int = (\<lambda>i. Inr (real_of_int i)),
      float_mul = (\<lambda>x y. x * y),
      float_truediv = (\<lambda>x y. if y = 0 then Inl ZeroDivisionError else Inr (x / y)),
      float_le_zero = (\<lambda>x. x \<le> 0),
      imdecode = (\<lambda>content. Some (NDArray [0])),
      imencode_b64 = (\<lambda>frame. Inr ''QUJD''),
      chat_create = (\<lambda>encoded_frames w. Inr [Some ''a robot arm stacks rings''])\<rparr>"

definition tool_raises ::
  "string list \<Rightarrow> (string \<Rightarrow> string option) \<Rightarrow> world
     \<Rightarrow> py_exception + completed_process \<times> (string \<times> node) list" where
  "tool_raises cmd env w = Inl (OtherException ''torchrun: command not found'')"

definition tool_writes ::
  "string \<Rightarrow> string \<Rightarrow> string list \<Rightarrow> (string \<Rightarrow> string option) \<Rightarrow> world
     \<Rightarrow> py_exception + completed_process \<times> (string \<times> node) list" where
  "tool_writes path content cmd env w =
     Inr (\<lparr>returncode = 0, stdout = [], stderr = []\<rparr>, AList.update path (File content) (fs w))"

definition tool_exits ::
  "int \<Rightarrow> string \<Rightarrow> string list \<Rightarrow> (string \<Rightarrow> string option) \<Rightarrow> world
     \<Rightarrow> py_exception + completed_process \<times> (string \<times> node) list" where
  "tool_exits code out cmd env w =
     Inr (\<lparr>returncode = code, stdout = out, stderr = []\<rparr>, fs w)"

definition example_world :: world where
  "example_world =
     \<lparr>fs = [(''/root/cosmos-transfer1'', Dir), (''/out'', Dir)], cwd = ''/'', trace = []\<rparr>"

definition videos_bracket_folder :: world where
  "videos_bracket_folder =
     \<lparr>fs = [(''/videos'', Dir),
            (''/videos/cam[1]'', Dir),
            (''/videos/cam[1]/episode_000000.mp4'', File ''a''),
            (''/videos/cam[1]/episode_000003.mp4'', File ''b'')],
      cwd = ''/'', trace = []\<rparr>"

definition dataset_two_requested :: world where
  "dataset_two_requested =
     \<lparr>fs = [(''/root/synphony/datasets/d/videos/chunk-000'', Dir),
            (''/root/synphony/datasets/d/videos/chunk-000/observation.images.front'', Dir),
            (''/root/synphony/datasets/d/videos/chunk-000/observation.images.front/episode_000000.mp4'',
             File ''v0''),
            (''/root/synphony/datasets/d/data/chunk-000'', Dir),
            (''/root/synphony/datasets/d/data/chunk-000/episode_000000.parquet'', File ''rows0'')],
      cwd = ''/'', trace = []\<rparr>"


definition dataset_no_source_video :: world where
  "dataset_no_source_video =
     \<lparr>fs = [(''/root/synphony/datasets/d/videos/chunk-000'', Dir),
            (''/root/synphony/datasets/d/videos/chunk-000/observation.images.front'', Dir),
            (''/root/synphony/datasets/d/videos/chunk-000/observation.images.front/episode_000005.mp4'',
             File ''v5''),
            (''/root/synphony/datasets/d/data/chunk-000'', Dir),
            (''/root/synphony/datasets/d/data/chunk-000/episode_000000.parquet'', File ''rows0'')],
      cwd = ''/'', trace = []\<rparr>"

section \<open>Episode Allocator: the next episode number\<close>

text \<open>
  The two examples of the specification, in a folder \<^verbatim>\<open>/videos/cam\<close>: \<open>0\<close> on the empty
  directory and \<open>4\<close> on the directory with \<^verbatim>\<open>episode_000000.mp4\<close> and
  \<^verbatim>\<open>episode_000003.mp4\<close>. A name whose index does not parse is passed over.
\<close>

lemma get_next_episode_number_examples:
  "get_next_episode_number
     \<lparr>fs = [(''/videos/cam'', Dir)], cwd = ''/'', trace = []\<rparr> ''/videos/cam'' = 0
   \<and> get_next_episode_number
        \<lparr>fs = [(''/videos/cam'', Dir),
               (''/videos/cam/episode_000000.mp4'', File ''a''),
               (''/videos/cam/episode_000003.mp4'', File ''b'')],
         cwd = ''/'', trace = []\<rparr> ''/videos/cam'' = 4
   \<and> get_next_episode_number
        \<lparr>fs = [(''/videos/cam'', Dir),
               (''/videos/cam/episode_000002.mp4'', File ''a''),
               (''/videos/cam/episode_final.mp4'', File ''b''),
               (''/videos/cam/readme.txt'', File ''c'')],
         cwd = ''/'', trace = []\<rparr> ''/videos/cam'' = 3"
  by code_simp

text \<open>
  C4. The folder is not escaped when the pattern is built, so that \<^verbatim>\<open>glob.glob\<close>
  reads the magic characters of its name as a pattern. The folder
  \<^verbatim>\<open>/videos/cam[1]\<close> of \<open>videos_bracket_folder\<close> is a directory that holds
  \<^verbatim>\<open>episode_000000.mp4\<close> and \<^verbatim>\<open>episode_000003.mp4\<close>, and nothing else; the pattern
  \<^verbatim>\<open>/videos/cam[1]/episode_*.mp4\<close> looks for a folder \<^verbatim>\<open>cam1\<close>, finds no file, and
  \<open>get_next_episode_number\<close> returns \<open>0\<close>, not \<open>4\<close>: the next generation would
  write over episode 0.
\<close>

theorem get_next_episode_number_bracket_folder:
  "isdir videos_bracket_folder ''/videos/cam[1]''
   \<and> listdir videos_bracket_folder ''/videos/cam[1]''
       = Inr [''episode_000000.mp4'', ''episode_000003.mp4'']
   \<and> episode_numbers [''/videos/cam[1]/episode_000000.mp4'', ''/videos/cam[1]/episode_000003.mp4'']
       = [0, 3]
   \<and> glob videos_bracket_folder (join ''/videos/cam[1]'' ''episode_*.mp4'') = []
   \<and> get_next_episode_number videos_bracket_folder ''/videos/cam[1]'' = 0"
  by code_simp

section \<open>Content Describer: no frames\<close>

text \<open>
  When some frame can be encoded, the describer sends one request to the service,
  with the encoded frames.
\<close>

lemma analyze_video_calls_service:
  "encode_frames ex frames \<noteq> [] \<Longrightarrow>
   trace (snd (analyze_video fallback ex frames w)) =
     trace w @ [ChatCompletion (encode_frames ex frames)]"
  by (cases frames)
     (auto simp: analyze_video_def analyze_video_body_def log_event_def Let_def
           split: sum.splits list.splits option.splits)

text \<open>
  C5. Given no frames, \<open>analyze_video_with_openai\<close> (in both copies of the file)
  returns the string \<^verbatim>\<open>a video sequence\<close> and leaves the world as it was: nothing is
  added to the trace, so that no request is sent to the service.
\<close>

theorem analyze_video_empty_frames:
  "analyze_video_with_openai ex [] w = (''a video sequence'', w)
   \<and> analyze_video_with_openai_async ex [] w = (''a video sequence'', w)"
  by (simp add: analyze_video_with_openai_def analyze_video_with_openai_async_def
      analyze_video_def analyze_video_body_def)

section \<open>Episode Allocator: copying a sidecar that is not there\<close>

text \<open>
  C7 as stated fails when the function is called before \<^verbatim>\<open>main\<close> has set the logger
  up: the branch of the missing source starts with \<^verbatim>\<open>logger.warning\<close>, which then
  raises \<^verbatim>\<open>AttributeError\<close>.
\<close>

theorem copy_parquet_file_no_logger_counterexample:
  "\<not> exists \<lparr>fs = [(''/data'', Dir), (''/data/episode_000000.parquet'', File ''rows'')],
              cwd = ''/'', trace = []\<rparr> (join ''/data'' (parquet_name 1))
   \<and> copy_parquet_file NoLogger 1 4 ''/data''
        \<lparr>fs = [(''/data'', Dir), (''/data/episode_000000.parquet'', File ''rows'')],
          cwd = ''/'', trace = []\<rparr>
      = (Inl AttributeError,
         \<lparr>fs = [(''/data'', Dir), (''/data/episode_000000.parquet'', File ''rows'')],
          cwd = ''/'', trace = []\<rparr>)"
  by code_simp

text \<open>
  C7 (as amended). When the source file of \<open>src_episode_num\<close> does not exist,
  \<open>copy_parquet_file\<close> leaves the world as it was: the file system is unchanged
  and no call is added to the trace. With the logger set up it returns \<open>False\<close> and
  raises nothing; without it, it raises \<^verbatim>\<open>AttributeError\<close>.
\<close>

theorem copy_parquet_file_missing_source:
  "\<not> exists w (join data_folder (parquet_name src_episode_num)) \<Longrightarrow>
   copy_parquet_file Logger src_episode_num dest_episode_num data_folder w = (Inr False, w)
   \<and> copy_parquet_file NoLogger src_episode_num dest_episode_num data_folder w
       = (Inl AttributeError, w)"
  by (simp add: copy_parquet_file_def logger_call_def)

theorem copy_parquet_file_missing_source_witness:
  "\<not> exists \<lparr>fs = [(''/data'', Dir), (''/data/episode_000000.parquet'', File ''rows'')],
              cwd = ''/'', trace = []\<rparr> (join ''/data'' (parquet_name 1))
   \<and> copy_parquet_file Logger 1 4 ''/data''
        \<lparr>fs = [(''/data'', Dir), (''/data/episode_000000.parquet'', File ''rows'')],
          cwd = ''/'', trace = []\<rparr>
      = (Inr False, \<lparr>fs = [(''/data'', Dir), (''/data/episode_000000.parquet'', File ''rows'')],
          cwd = ''/'', trace = []\<rparr>)"
proof -
  have missing: "\<not> exists \<lparr>fs = [(''/data'', Dir), (''/data/episode_000000.parquet'', File ''rows'')],
              cwd = ''/'', trace = []\<rparr> (join ''/data'' (parquet_name 1))"
    by code_simp
  show ?thesis
    using missing copy_parquet_file_missing_source [OF missing, of 4] by simp
qed

section \<open>Augmentation Invoker: exceptions\<close>

lemma run_transfer_example_raises:
  "run_transfer (example_externals tool_raises) ''p'' ''/in/episode_000000.mp4''
     ''/out/episode_000001.mp4'' example_world
   = (Inl (OtherException ''torchrun: command not found''),
      \<lparr>fs = [(''/root/cosmos-transfer1'', Dir), (''/out'', Dir)], cwd = ''/root/cosmos-transfer1'',
       trace = [BindPort, Subprocess (torchrun_cmd ''1'' ''./checkpoints'' 29500 ''p''
                  ''/in/episode_000000.mp4'' ''/out/episode_000001.mp4'')]\<rparr>)"
  by (simp add: run_transfer_def example_externals_def tool_raises_def example_world_def
      os_chdir_def lookup_def resolve_def startswith_def find_free_port_def subprocess_run_def
      log_event_def env_get_def Let_def)

text \<open>
  C9. For all parameters, arguments and worlds, \<open>augment_video\<close> returns a boolean
  (\<open>Inr\<close>) and never an exception (\<open>Inl\<close>); whenever the body of its \<^verbatim>\<open>try\<close>
  statement raises, the result is \<open>False\<close>.
\<close>

theorem augment_video_never_raises:
  "(\<exists>success w'. augment_video ex prompt input_video_path output_video_path w = (Inr success, w'))
   \<and> (\<forall>e w1. augment_video_body ex prompt input_video_path output_video_path w = (Inl e, w1)
          \<longrightarrow> augment_video ex prompt input_video_path output_video_path w = (Inr False, w1))"
  by (auto simp: augment_video_def split: prod.splits sum.splits)

theorem augment_video_never_raises_witness:
  "augment_video_body (example_externals tool_raises) ''p'' ''/in/episode_000000.mp4''
     ''/out/episode_000001.mp4'' example_world
   = (Inl (OtherException ''torchrun: command not found''),
      \<lparr>fs = [(''/root/cosmos-transfer1'', Dir), (''/out'', Dir)], cwd = ''/root/cosmos-transfer1'',
       trace = [BindPort, Subprocess (torchrun_cmd ''1'' ''./checkpoints'' 29500 ''p''
                  ''/in/episode_000000.mp4'' ''/out/episode_000001.mp4'')]\<rparr>)
   \<and> augment_video (example_externals tool_raises) ''p'' ''/in/episode_000000.mp4''
     ''/out/episode_000001.mp4'' example_world
   = (Inr False,
      \<lparr>fs = [(''/root/cosmos-transfer1'', Dir), (''/out'', Dir)], cwd = ''/root/cosmos-transfer1'',
       trace = [BindPort, Subprocess (torchrun_cmd ''1'' ''./checkpoints'' 29500 ''p''
                  ''/in/episode_000000.mp4'' ''/out/episode_000001.mp4'')]\<rparr>)"
proof -
  have body: "augment_video_body (example_externals tool_raises) ''p'' ''/in/episode_000000.mp4''
     ''/out/episode_000001.mp4'' example_world
   = (Inl (OtherException ''torchrun: command not found''),
      \<lparr>fs = [(''/root/cosmos-transfer1'', Dir), (''/out'', Dir)], cwd = ''/root/cosmos-transfer1'',
       trace = [BindPort, Subprocess (torchrun_cmd ''1'' ''./checkpoints'' 29500 ''p''
                  ''/in/episode_000000.mp4'' ''/out/episode_000001.mp4'')]\<rparr>)"
    by (simp add: augment_video_body_def run_transfer_example_raises)
  show ?thesis
    using body augment_video_never_raises [of "example_externals tool_raises" "''p''"
        "''/in/episode_000000.mp4''" "''/out/episode_000001.mp4''" example_world]
    by blast
qed

section \<open>The file system: facts\<close>

lemma lookup_log_event [simp]: "lookup (log_event e w) p = lookup w p"
  by (simp add: lookup_def log_event_def resolve_def)

lemma resolve_log_event [simp]: "resolve (log_event e w) p = resolve w p"
  by (simp add: log_event_def resolve_def)

lemma exists_log_event [simp]: "exists (log_event e w) p = exists w p"
  by (simp add: exists_def)

lemma fs_log_event [simp]: "fs (log_event e w) = fs w"
  by (simp add: log_event_def)

lemma cwd_log_event [simp]: "cwd (log_event e w) = cwd w"
  by (simp add: log_event_def)

lemma trace_log_event [simp]: "trace (log_event e w) = trace w @ [e]"
  by (simp add: log_event_def)

lemma startswith_slash_append: "p \<noteq> [] \<Longrightarrow> startswith (p @ q) ''/'' = startswith p ''/''"
  by (cases p) (simp_all add: startswith_def)

lemma join_append: "p \<noteq> [] \<Longrightarrow> join a (p @ q) = join a p @ q"
  by (simp add: join_def startswith_slash_append)

lemma resolve_append: "p \<noteq> [] \<Longrightarrow> resolve w (p @ q) = resolve w p @ q"
  by (simp add: resolve_def startswith_slash_append join_append)

lemma length_join_empty: "length d \<le> length (join d [])"
  by (simp add: join_def startswith_def)

lemma rekey_neq: "n < length k \<Longrightarrow> join d [] @ drop n k \<noteq> d"
proof
  assume n: "n < length k" and eq: "join d [] @ drop n k = d"
  have "length (join d [] @ drop n k) = length (join d []) + (length k - n)" by simp
  with n length_join_empty [of d] have "length d < length (join d [] @ drop n k)" by simp
  with eq show False by simp
qed

lemma map_of_move_tree_dest:
  "s \<noteq> d \<Longrightarrow> map_of (move_tree s d (AList.delete d al)) d = map_of al s"
proof (induction al)
  case Nil
  then show ?case by (simp add: move_tree_def)
next
  case (Cons kv al)
  obtain k v where kv: "kv = (k, v)" by (cases kv)
  from Cons have ih: "map_of (move_tree s d (AList.delete d al)) d = map_of al s" by simp
  show ?case
  proof (cases "k = d")
    case True
    with kv Cons.prems ih show ?thesis by simp
  next
    case False
    with kv ih Cons.prems show ?thesis
      using rekey_neq [of "length (join s [])" k d]
      by (auto simp: move_tree_def)
  qed
qed

lemma os_rename_into_absent:
  assumes "lookup w src = Some n" and "dst \<noteq> []" and "lookup w dst = None"
    and "resolve w src \<noteq> resolve w dst"
    and "\<not> startswith (resolve w dst) (join (resolve w src) [])"
  shows "os_rename src dst w =
    (None, (log_event (Rename src dst) w)
       \<lparr>fs := move_tree (resolve w src) (resolve w dst) (AList.delete (resolve w dst) (fs w))\<rparr>)"
  using assms by (cases n) (simp_all add: os_rename_def Let_def)

lemma lookup_fs_update:
  "lookup (w\<lparr>fs := al\<rparr>) p = (if p = [] then None else map_of al (resolve w p))"
  by (simp add: lookup_def resolve_def)

lemma rename_doubled:
  assumes out: "output_video_path \<noteq> []"
    and absent: "\<not> exists w output_video_path"
    and doubled: "exists w (output_video_path @ ''.mp4'')"
  shows "\<exists>w4. os_rename (output_video_path @ ''.mp4'') output_video_path w = (None, w4)
           \<and> lookup w4 output_video_path = lookup w (output_video_path @ ''.mp4'')
           \<and> cwd w4 = cwd w
           \<and> trace w4 = trace w @ [Rename (output_video_path @ ''.mp4'') output_video_path]"
proof -
  let ?s = "resolve w (output_video_path @ ''.mp4'')" and ?d = "resolve w output_video_path"
  have s: "?s = ?d @ ''.mp4''" using out by (rule resolve_append)
  from doubled obtain n where n: "lookup w (output_video_path @ ''.mp4'') = Some n"
    by (auto simp: exists_def)
  from absent have none: "lookup w output_video_path = None" by (simp add: exists_def)
  have ne: "?s \<noteq> ?d" using s by simp
  have "length ?d < length (join ?s [])"
    using length_join_empty [of ?s] s by simp
  then have nostart: "\<not> startswith ?d (join ?s [])"
    by (auto simp: startswith_def)
  have r: "os_rename (output_video_path @ ''.mp4'') output_video_path w =
      (None, (log_event (Rename (output_video_path @ ''.mp4'') output_video_path) w)
         \<lparr>fs := move_tree ?s ?d (AList.delete ?d (fs w))\<rparr>)"
    using n out none ne nostart by (rule os_rename_into_absent)
  have "map_of (fs w) ?s = Some n" using n by (simp add: lookup_def)
  then have "lookup ((log_event (Rename (output_video_path @ ''.mp4'') output_video_path) w)
         \<lparr>fs := move_tree ?s ?d (AList.delete ?d (fs w))\<rparr>) output_video_path = Some n"
    using out ne by (simp add: lookup_fs_update map_of_move_tree_dest)
  with r n show ?thesis by simp
qed

lemma os_rename_exists:
  assumes "os_rename src dst w = (None, w1)"
  shows "exists w1 dst"
proof -
  let ?s = "resolve w src" and ?d = "resolve w dst"
  from assms obtain n where n: "lookup w src = Some n"
    by (auto simp: os_rename_def Let_def split: option.splits)
  from assms n have dst: "dst \<noteq> []"
    by (auto simp: os_rename_def Let_def split: if_splits)
  have ms: "map_of (fs w) ?s = Some n" using n by (simp add: lookup_def split: if_splits)
  show ?thesis
  proof (cases "?s = ?d")
    case True
    with assms n dst have "w1 = log_event (Rename src dst) w"
      by (simp add: os_rename_def Let_def)
    with True ms dst show ?thesis by (simp add: exists_def lookup_def)
  next
    case False
    from assms n dst False have
      "w1 = (log_event (Rename src dst) w)\<lparr>fs := move_tree ?s ?d (AList.delete ?d (fs w))\<rparr>"
      by (auto simp: os_rename_def Let_def split: if_splits node.splits option.splits)
    with False ms dst show ?thesis
      by (simp add: exists_def lookup_fs_update map_of_move_tree_dest)
  qed
qed

lemma verify_output_exists:
  "verify_output output_video_path w = (Inr True, w4) \<Longrightarrow> exists w4 output_video_path"
  by (auto simp: verify_output_def Let_def os_rename_exists
      split: if_splits sum.splits prod.splits option.splits)

section \<open>Augmentation Invoker: the output file\<close>

lemma resolve_cwd_cong: "cwd w' = cwd w \<Longrightarrow> resolve w' p = resolve w p"
  by (simp add: resolve_def)

lemma os_remove_cwd [simp]: "cwd (snd (os_remove p w)) = cwd w"
  by (simp add: os_remove_def Let_def split: option.splits node.splits)

lemma os_remove_other:
  "resolve w p \<noteq> k \<Longrightarrow> map_of (fs (snd (os_remove p w))) k = map_of (fs w) k"
  by (simp add: os_remove_def Let_def AList.delete_conv split: option.splits node.splits)

lemma remove_files_cwd [simp]: "cwd (remove_files ps w) = cwd w"
  by (induction ps arbitrary: w) simp_all

lemma remove_files_keeps:
  "\<forall>p \<in> set ps. resolve w p \<noteq> k \<Longrightarrow> map_of (fs (remove_files ps w)) k = map_of (fs w) k"
proof (induction ps arbitrary: w)
  case Nil
  then show ?case by simp
next
  case (Cons p ps)
  have same: "\<And>q. resolve (snd (os_remove p w)) q = resolve w q"
    by (rule resolve_cwd_cong) simp
  from Cons.prems have "\<forall>q \<in> set ps. resolve (snd (os_remove p w)) q \<noteq> k"
    by (simp add: same)
  then have "map_of (fs (remove_files ps (snd (os_remove p w)))) k
      = map_of (fs (snd (os_remove p w))) k"
    by (rule Cons.IH)
  also have "\<dots> = map_of (fs w) k"
    using Cons.prems by (simp add: os_remove_other)
  finally show ?case by simp
qed

lemma cleanup_txt_keeps:
  assumes "exists w output_video_path"
    and "\<forall>p \<in> set (glob w (txt_pattern output_video_path)).
            resolve w p \<noteq> resolve w output_video_path"
  shows "exists (cleanup_txt output_video_path w) output_video_path"
proof -
  have r: "resolve (cleanup_txt output_video_path w) output_video_path
      = resolve w output_video_path"
    by (rule resolve_cwd_cong) (simp add: cleanup_txt_def)
  from assms(2) have "map_of (fs (cleanup_txt output_video_path w)) (resolve w output_video_path)
      = map_of (fs w) (resolve w output_video_path)"
    unfolding cleanup_txt_def by (rule remove_files_keeps)
  with assms(1) r show ?thesis
    by (auto simp: exists_def lookup_def split: if_splits)
qed

lemma augment_video_success:
  assumes "augment_video ex prompt input_video_path output_video_path w = (Inr True, w')"
  shows "\<exists>result w3 w4.
           run_transfer ex prompt input_video_path output_video_path w = (Inr result, w3)
         \<and> returncode result = 0
         \<and> verify_output output_video_path w3 = (Inr True, w4)
         \<and> w' = cleanup_txt output_video_path w4"
  using assms
  by (auto simp: augment_video_def augment_video_body_def
      split: prod.splits sum.splits if_splits bool.splits)

text \<open>
  C1 (as amended). When \<open>augment_video\<close> returns \<open>True\<close>, the external tool has
  exited with status 0 and the destination path exists in the world \<open>w4\<close> in which the
  output has been verified (after a doubled extension has been renamed); the size of
  the file is read for the log only and can be zero. The world at return is \<open>w4\<close>
  after the cleanup of the text files, where the destination still exists unless it
  is itself one of the files the cleanup pattern matches.
\<close>

theorem augment_video_success_output:
  assumes "augment_video ex prompt input_video_path output_video_path w = (Inr True, w')"
  shows "\<exists>result w3 w4.
           run_transfer ex prompt input_video_path output_video_path w = (Inr result, w3)
         \<and> returncode result = 0
         \<and> verify_output output_video_path w3 = (Inr True, w4)
         \<and> w' = cleanup_txt output_video_path w4
         \<and> exists w4 output_video_path
         \<and> (exists w' output_video_path
            \<or> (\<exists>p \<in> set (glob w4 (txt_pattern output_video_path)).
                  resolve w4 p = resolve w4 output_video_path))"
proof -
  from augment_video_success [OF assms] obtain result w3 w4 where
    run: "run_transfer ex prompt input_video_path output_video_path w = (Inr result, w3)"
    and rc: "returncode result = 0"
    and ver: "verify_output output_video_path w3 = (Inr True, w4)"
    and w': "w' = cleanup_txt output_video_path w4"
    by blast
  have ex4: "exists w4 output_video_path" using ver by (rule verify_output_exists)
  have "exists w' output_video_path
        \<or> (\<exists>p \<in> set (glob w4 (txt_pattern output_video_path)).
              resolve w4 p = resolve w4 output_video_path)"
    using cleanup_txt_keeps [OF ex4] w' by blast
  with run rc ver w' ex4 show ?thesis by blast
qed

lemma run_transfer_example_writes:
  "run_transfer (example_externals (tool_writes path content)) ''p'' ''/in/episode_000000.mp4''
     out example_world
   = (Inr \<lparr>returncode = 0, stdout = [], stderr = []\<rparr>,
      \<lparr>fs = AList.update path (File content) [(''/root/cosmos-transfer1'', Dir), (''/out'', Dir)],
       cwd = ''/root/cosmos-transfer1'',
       trace = [BindPort, Subprocess (torchrun_cmd ''1'' ''./checkpoints'' 29500 ''p''
                  ''/in/episode_000000.mp4'' out)]\<rparr>)"
  by (simp add: run_transfer_def example_externals_def tool_writes_def example_world_def
      os_chdir_def lookup_def resolve_def startswith_def find_free_port_def subprocess_run_def
      log_event_def env_get_def Let_def)

lemma glob_example_no_txt:
  "glob \<lparr>fs = [(''/root/cosmos-transfer1'', Dir), (''/out'', Dir),
                (''/out/episode_000001.mp4'', File content)],
          cwd = ''/root/cosmos-transfer1'', trace = tr\<rparr>
        (txt_pattern ''/out/episode_000001.mp4'') = []"
  by code_simp

lemma augment_video_example_writes:
  "augment_video (example_externals (tool_writes ''/out/episode_000001.mp4'' content)) ''p''
       ''/in/episode_000000.mp4'' ''/out/episode_000001.mp4'' example_world
     = (Inr True,
        \<lparr>fs = [(''/root/cosmos-transfer1'', Dir), (''/out'', Dir),
               (''/out/episode_000001.mp4'', File content)],
         cwd = ''/root/cosmos-transfer1'',
         trace = [BindPort, Subprocess (torchrun_cmd ''1'' ''./checkpoints'' 29500 ''p''
                    ''/in/episode_000000.mp4'' ''/out/episode_000001.mp4'')]\<rparr>)"
  by (simp add: augment_video_def augment_video_body_def run_transfer_example_writes
      verify_output_def exists_def lookup_def resolve_def startswith_def getsize_def
      cleanup_txt_def glob_example_no_txt)

text \<open>
  C1 as stated fails: a tool that exits with status 0 and leaves an empty file at the
  destination makes \<open>augment_video\<close> return \<open>True\<close>, and the destination has size 0.
\<close>

theorem augment_video_empty_output_counterexample:
  "augment_video (example_externals (tool_writes ''/out/episode_000001.mp4'' [])) ''p''
       ''/in/episode_000000.mp4'' ''/out/episode_000001.mp4'' example_world
     = (Inr True,
        \<lparr>fs = [(''/root/cosmos-transfer1'', Dir), (''/out'', Dir),
               (''/out/episode_000001.mp4'', File [])],
         cwd = ''/root/cosmos-transfer1'',
         trace = [BindPort, Subprocess (torchrun_cmd ''1'' ''./checkpoints'' 29500 ''p''
                    ''/in/episode_000000.mp4'' ''/out/episode_000001.mp4'')]\<rparr>)
   \<and> getsize \<lparr>fs = [(''/root/cosmos-transfer1'', Dir), (''/out'', Dir),
               (''/out/episode_000001.mp4'', File [])],
         cwd = ''/root/cosmos-transfer1'',
         trace = [BindPort, Subprocess (torchrun_cmd ''1'' ''./checkpoints'' 29500 ''p''
                    ''/in/episode_000000.mp4'' ''/out/episode_000001.mp4'')]\<rparr>
        ''/out/episode_000001.mp4'' = Inr 0"
  by (simp add: augment_video_example_writes getsize_def lookup_def resolve_def startswith_def)

theorem augment_video_success_output_witness:
  "augment_video (example_externals (tool_writes ''/out/episode_000001.mp4'' ''video'')) ''p''
       ''/in/episode_000000.mp4'' ''/out/episode_000001.mp4'' example_world
     = (Inr True,
        \<lparr>fs = [(''/root/cosmos-transfer1'', Dir), (''/out'', Dir),
               (''/out/episode_000001.mp4'', File ''video'')],
         cwd = ''/root/cosmos-transfer1'',
         trace = [BindPort, Subprocess (torchrun_cmd ''1'' ''./checkpoints'' 29500 ''p''
                    ''/in/episode_000000.mp4'' ''/out/episode_000001.mp4'')]\<rparr>)
   \<and> (\<exists>result w3 w4.
           run_transfer (example_externals (tool_writes ''/out/episode_000001.mp4'' ''video''))
             ''p'' ''/in/episode_000000.mp4'' ''/out/episode_000001.mp4'' example_world
             = (Inr result, w3)
         \<and> returncode result = 0
         \<and> verify_output ''/out/episode_000001.mp4'' w3 = (Inr True, w4)
         \<and> exists w4 ''/out/episode_000001.mp4'')"
proof -
  note run = augment_video_example_writes [of "''video''"]
  from augment_video_success_output [OF run] run show ?thesis by blast
qed

section \<open>Augmentation Invoker: a doubled extension\<close>

text \<open>
  C6. Let the external tool exit with status 0 and let the destination, a path (a
  string that is not empty), be absent afterwards. If the path with the doubled
  extension exists, \<^verbatim>\<open>os.rename\<close> succeeds, what was at the doubled path is at the
  destination, the renaming is the next call in the trace, and \<open>augment_video\<close>
  returns \<open>True\<close> (the cleanup of text files follows). If it does not exist either,
  \<open>augment_video\<close> returns \<open>False\<close> and changes nothing more.
\<close>

theorem augment_video_doubled_extension:
  assumes run: "run_transfer ex prompt input_video_path output_video_path w = (Inr result, w3)"
    and rc: "returncode result = 0"
    and out: "output_video_path \<noteq> []"
    and absent: "\<not> exists w3 output_video_path"
  shows "(exists w3 (output_video_path @ ''.mp4'') \<longrightarrow>
           (\<exists>w4. os_rename (output_video_path @ ''.mp4'') output_video_path w3 = (None, w4)
                \<and> lookup w4 output_video_path = lookup w3 (output_video_path @ ''.mp4'')
                \<and> trace w4 = trace w3 @ [Rename (output_video_path @ ''.mp4'') output_video_path]
                \<and> augment_video ex prompt input_video_path output_video_path w
                    = (Inr True, cleanup_txt output_video_path w4)))
       \<and> (\<not> exists w3 (output_video_path @ ''.mp4'') \<longrightarrow>
            augment_video ex prompt input_video_path output_video_path w = (Inr False, w3))"
proof (intro conjI impI)
  assume doubled: "exists w3 (output_video_path @ ''.mp4'')"
  from rename_doubled [OF out absent doubled] obtain w4 where
    ren: "os_rename (output_video_path @ ''.mp4'') output_video_path w3 = (None, w4)"
    and look: "lookup w4 output_video_path = lookup w3 (output_video_path @ ''.mp4'')"
    and tr: "trace w4 = trace w3 @ [Rename (output_video_path @ ''.mp4'') output_video_path]"
    by blast
  have "verify_output output_video_path w3 = (Inr True, w4)"
    using absent doubled ren by (simp add: verify_output_def)
  then have "augment_video ex prompt input_video_path output_video_path w
      = (Inr True, cleanup_txt output_video_path w4)"
    using run rc by (simp add: augment_video_def augment_video_body_def)
  with ren look tr
  show "\<exists>w4. os_rename (output_video_path @ ''.mp4'') output_video_path w3 = (None, w4)
          \<and> lookup w4 output_video_path = lookup w3 (output_video_path @ ''.mp4'')
          \<and> trace w4 = trace w3 @ [Rename (output_video_path @ ''.mp4'') output_video_path]
          \<and> augment_video ex prompt input_video_path output_video_path w
              = (Inr True, cleanup_txt output_video_path w4)"
    by blast
next
  assume neither: "\<not> exists w3 (output_video_path @ ''.mp4'')"
  have "verify_output output_video_path w3 = (Inr False, w3)"
    using absent neither by (simp add: verify_output_def)
  then show "augment_video ex prompt input_video_path output_video_path w = (Inr False, w3)"
    using run rc by (simp add: augment_video_def augment_video_body_def)
qed

text \<open>
  The empty string, which names no file and which no caller passes, is left out as a
  destination: \<^verbatim>\<open>""\<close> never exists, a file \<^verbatim>\<open>.mp4\<close> can, and
  \<^verbatim>\<open>os.rename(".mp4", "")\<close> raises, which the handler turns into \<open>False\<close>.
\<close>

lemma augment_video_empty_path:
  "run_transfer (example_externals (tool_writes ''/root/cosmos-transfer1/.mp4'' ''video''))
       ''p'' ''/in/episode_000000.mp4'' [] example_world
     = (Inr \<lparr>returncode = 0, stdout = [], stderr = []\<rparr>,
        \<lparr>fs = [(''/root/cosmos-transfer1'', Dir), (''/out'', Dir),
               (''/root/cosmos-transfer1/.mp4'', File ''video'')],
         cwd = ''/root/cosmos-transfer1'',
         trace = [BindPort, Subprocess (torchrun_cmd ''1'' ''./checkpoints'' 29500 ''p''
                    ''/in/episode_000000.mp4'' [])]\<rparr>)
   \<and> \<not> exists \<lparr>fs = [(''/root/cosmos-transfer1'', Dir), (''/out'', Dir),
               (''/root/cosmos-transfer1/.mp4'', File ''video'')],
         cwd = ''/root/cosmos-transfer1'',
         trace = [BindPort, Subprocess (torchrun_cmd ''1'' ''./checkpoints'' 29500 ''p''
                    ''/in/episode_000000.mp4'' [])]\<rparr> []
   \<and> exists \<lparr>fs = [(''/root/cosmos-transfer1'', Dir), (''/out'', Dir),
               (''/root/cosmos-transfer1/.mp4'', File ''video'')],
         cwd = ''/root/cosmos-transfer1'',
         trace = [BindPort, Subprocess (torchrun_cmd ''1'' ''./checkpoints'' 29500 ''p''
                    ''/in/episode_000000.mp4'' [])]\<rparr> ([] @ ''.mp4'')
   \<and> fst (augment_video (example_externals (tool_writes ''/root/cosmos-transfer1/.mp4'' ''video''))
       ''p'' ''/in/episode_000000.mp4'' [] example_world) = Inr False"
  by (simp add: augment_video_def augment_video_body_def run_transfer_example_writes
      verify_output_def exists_def lookup_def resolve_def startswith_def endswith_def join_def
      os_rename_def Let_def)

theorem augment_video_doubled_extension_witness:
  "(\<exists>w4. os_rename (''/out/episode_000001.mp4'' @ ''.mp4'') ''/out/episode_000001.mp4''
             \<lparr>fs = [(''/root/cosmos-transfer1'', Dir), (''/out'', Dir),
                    (''/out/episode_000001.mp4.mp4'', File ''video'')],
              cwd = ''/root/cosmos-transfer1'',
              trace = [BindPort, Subprocess (torchrun_cmd ''1'' ''./checkpoints'' 29500 ''p''
                    ''/in/episode_000000.mp4'' ''/out/episode_000001.mp4'')]\<rparr> = (None, w4)
         \<and> lookup w4 ''/out/episode_000001.mp4'' = Some (File ''video'')
         \<and> augment_video
              (example_externals (tool_writes ''/out/episode_000001.mp4.mp4'' ''video''))
              ''p'' ''/in/episode_000000.mp4'' ''/out/episode_000001.mp4'' example_world
            = (Inr True, cleanup_txt ''/out/episode_000001.mp4'' w4))
   \<and> augment_video (example_externals (tool_writes ''/elsewhere/clip.mp4'' ''video''))
        ''p'' ''/in/episode_000000.mp4'' ''/out/episode_000001.mp4'' example_world
      = (Inr False,
         \<lparr>fs = [(''/root/cosmos-transfer1'', Dir), (''/out'', Dir),
                (''/elsewhere/clip.mp4'', File ''video'')],
          cwd = ''/root/cosmos-transfer1'',
          trace = [BindPort, Subprocess (torchrun_cmd ''1'' ''./checkpoints'' 29500 ''p''
                    ''/in/episode_000000.mp4'' ''/out/episode_000001.mp4'')]\<rparr>)"
proof -
  let ?w3 = "\<lparr>fs = [(''/root/cosmos-transfer1'', Dir), (''/out'', Dir),
                    (''/out/episode_000001.mp4.mp4'', File ''video'')],
              cwd = ''/root/cosmos-transfer1'',
              trace = [BindPort, Subprocess (torchrun_cmd ''1'' ''./checkpoints'' 29500 ''p''
                    ''/in/episode_000000.mp4'' ''/out/episode_000001.mp4'')]\<rparr>"
  let ?v3 = "\<lparr>fs = [(''/root/cosmos-transfer1'', Dir), (''/out'', Dir),
                (''/elsewhere/clip.mp4'', File ''video'')],
          cwd = ''/root/cosmos-transfer1'',
          trace = [BindPort, Subprocess (torchrun_cmd ''1'' ''./checkpoints'' 29500 ''p''
                    ''/in/episode_000000.mp4'' ''/out/episode_000001.mp4'')]\<rparr>"
  have run1: "run_transfer (example_externals (tool_writes ''/out/episode_000001.mp4.mp4'' ''video''))
      ''p'' ''/in/episode_000000.mp4'' ''/out/episode_000001.mp4'' example_world
      = (Inr \<lparr>returncode = 0, stdout = [], stderr = []\<rparr>, ?w3)"
    by (simp add: run_transfer_example_writes)
  have rc: "returncode \<lparr>returncode = 0, stdout = [], stderr = []\<rparr> = 0" by simp
  have out: "''/out/episode_000001.mp4'' \<noteq> []" by simp
  have absent1: "\<not> exists ?w3 ''/out/episode_000001.mp4''"
    by (simp add: exists_def lookup_def resolve_def startswith_def)
  have doubled1: "exists ?w3 (''/out/episode_000001.mp4'' @ ''.mp4'')"
    by (simp add: exists_def lookup_def resolve_def startswith_def)
  have look1: "lookup ?w3 (''/out/episode_000001.mp4'' @ ''.mp4'') = Some (File ''video'')"
    by (simp add: lookup_def resolve_def startswith_def)
  have run2: "run_transfer (example_externals (tool_writes ''/elsewhere/clip.mp4'' ''video''))
      ''p'' ''/in/episode_000000.mp4'' ''/out/episode_000001.mp4'' example_world
      = (Inr \<lparr>returncode = 0, stdout = [], stderr = []\<rparr>, ?v3)"
    by (simp add: run_transfer_example_writes)
  have absent2: "\<not> exists ?v3 ''/out/episode_000001.mp4''"
    by (simp add: exists_def lookup_def resolve_def startswith_def)
  have neither2: "\<not> exists ?v3 (''/out/episode_000001.mp4'' @ ''.mp4'')"
    by (simp add: exists_def lookup_def resolve_def startswith_def)
  from augment_video_doubled_extension [OF run1 rc out absent1] doubled1 look1
       augment_video_doubled_extension [OF run2 rc out absent2] neither2
  show ?thesis by metis
qed

section \<open>Dataset Orchestrator: validation\<close>

lemma validate_sources_iff:
  "validate_sources w data_path idxs
     = (\<forall>i \<in> set idxs. exists w (join data_path (parquet_name i)))"
  by (induction idxs) auto

text \<open>
  When the sidecar of some index in \<open>0..n_episodes-1\<close> is missing, \<open>process_dataset\<close>
  leaves the world as it was (no sidecar is copied, no prompt or video generated,
  nothing added to the trace). It returns \<open>False\<close>, unless the videos path is a
  regular file: the two paths are checked with \<^verbatim>\<open>os.path.exists\<close>, which a regular
  file passes, and the listing that follows has no handler.
\<close>

lemma process_dataset_missing_sidecar:
  assumes "\<exists>i \<in> {0..n_episodes - 1}.
             \<not> exists w (join (data_path_of dataset_name) (parquet_name i))"
  shows "snd (process_dataset ex dataset_name n_episodes w) = w
       \<and> (fst (process_dataset ex dataset_name n_episodes w) = Inr False
          \<or> fst (process_dataset ex dataset_name n_episodes w) = Inl NotADirectoryError
            \<and> (\<exists>content. lookup w (videos_path_of dataset_name) = Some (File content)))"
proof -
  from assms have "\<not> validate_sources w (data_path_of dataset_name) [0..n_episodes - 1]"
    by (simp add: validate_sources_iff)
  then show ?thesis
    by (auto simp: process_dataset_def Let_def listdir_def exists_def
        split: sum.splits list.splits option.splits node.splits)
qed

lemma process_dataset_missing_sidecar_example:
  "exists dataset_two_requested (join (data_path_of ''d'') (parquet_name 0))
   \<and> \<not> exists dataset_two_requested (join (data_path_of ''d'') (parquet_name 1))
   \<and> process_dataset (example_externals tool_raises) ''d'' 2 dataset_two_requested
       = (Inr False, dataset_two_requested)"
proof -
  have present: "exists dataset_two_requested (join (data_path_of ''d'') (parquet_name 0))"
    by code_simp
  have missing: "\<not> exists dataset_two_requested (join (data_path_of ''d'') (parquet_name 1))"
    by code_simp
  have dir: "lookup dataset_two_requested (videos_path_of ''d'') = Some Dir"
    by code_simp
  from missing have hyp: "\<exists>i \<in> {0..2 - 1}.
      \<not> exists dataset_two_requested (join (data_path_of ''d'') (parquet_name i))"
    by auto
  from process_dataset_missing_sidecar [OF hyp, of "example_externals tool_raises"] dir
  have "snd (process_dataset (example_externals tool_raises) ''d'' 2 dataset_two_requested)
          = dataset_two_requested"
    and "fst (process_dataset (example_externals tool_raises) ''d'' 2 dataset_two_requested)
          = Inr False"
    by auto
  then have "process_dataset (example_externals tool_raises) ''d'' 2 dataset_two_requested
       = (Inr False, dataset_two_requested)"
    by (simp add: prod_eq_iff)
  with present missing show ?thesis by simp
qed


section \<open>Dataset Orchestrator: no source video\<close>

lemma last_join: "b \<noteq> [] \<Longrightarrow> last (join a b) = last b"
  by (simp add: join_def)

lemma join_nonempty: "b \<noteq> [] \<Longrightarrow> join a b \<noteq> []"
  by (simp add: join_def)

lemma last_resolve: "p \<noteq> [] \<Longrightarrow> last (resolve w p) = last p"
  by (simp add: resolve_def last_join)

lemma last_basename:
  assumes "p \<noteq> []" and "last p \<noteq> CHR ''/''"
  shows "basename p \<noteq> [] \<and> last (basename p) = last p"
  using assms by (cases p rule: rev_cases) (simp_all add: basename_def)

lemma parquet_name_last: "parquet_name i \<noteq> [] \<and> last (parquet_name i) = CHR ''t''"
  by (simp add: parquet_name_def)

lemma video_name_last: "video_name i \<noteq> [] \<and> last (video_name i) = CHR ''4''"
  by (simp add: video_name_def)

lemma lookup_update_other:
  assumes "resolve w p \<noteq> k"
  shows "lookup (w\<lparr>fs := AList.update k v (fs w)\<rparr>) p = lookup w p"
proof -
  have "resolve (w\<lparr>fs := AList.update k v (fs w)\<rparr>) p = resolve w p"
    by (simp add: resolve_def)
  with assms show ?thesis
    by (simp add: lookup_def AList.update_conv')
qed

lemma shutil_copy2_cwd [simp]: "cwd (snd (shutil_copy2 src dst w)) = cwd w"
  by (simp add: shutil_copy2_def Let_def split: option.splits node.splits)

lemma shutil_copy2_lookup:
  assumes src: "src \<noteq> []" "last src = c" and dst: "dst \<noteq> []" "last dst = c"
    and c: "c \<noteq> CHR ''/''" and p: "p \<noteq> []" "last p \<noteq> c"
  shows "lookup (snd (shutil_copy2 src dst w)) p = lookup w p"
proof -
  let ?w = "log_event (Copy2 src dst) w"
  let ?dst = "if isdir ?w dst then join dst (basename src) else dst"
  have "?dst \<noteq> [] \<and> last ?dst = c"
    using src dst c last_basename [of src] by (simp add: last_join join_nonempty)
  then have "last (resolve ?w ?dst) = c" by (simp add: last_resolve del: resolve_log_event)
  moreover have "last (resolve ?w p) \<noteq> c" using p by (simp add: last_resolve del: resolve_log_event)
  ultimately have ne: "resolve ?w p \<noteq> resolve ?w ?dst" by metis
  show ?thesis
    using ne lookup_update_other [of ?w p "resolve ?w ?dst"]
    by (auto simp: shutil_copy2_def Let_def split: option.splits node.splits)
qed

lemma copy_parquet_file_returns:
  "\<exists>copied. fst (copy_parquet_file Logger i j data_folder w) = Inr copied"
  by (auto simp: copy_parquet_file_def logger_call_def Let_def split: prod.splits option.splits)

lemma copy_loop_returns: "fst (copy_loop next_episode_num data_path idxs w) = None"
proof (induction idxs arbitrary: w)
  case Nil
  then show ?case by simp
next
  case (Cons i idxs)
  obtain r w1 where c: "copy_parquet_file Logger i (next_episode_num + i) data_path w = (r, w1)"
    by (cases "copy_parquet_file Logger i (next_episode_num + i) data_path w")
  with copy_parquet_file_returns [of i "next_episode_num + i" data_path w]
  obtain copied where "r = Inr copied" by auto
  with c Cons.IH [of w1] show ?case by simp
qed

lemma copy_parquet_file_frame:
  assumes "p \<noteq> []" and "last p \<noteq> CHR ''t''"
  shows "lookup (snd (copy_parquet_file lg i j data_folder w)) p = lookup w p"
proof -
  let ?src = "join data_folder (parquet_name i)" and ?dst = "join data_folder (parquet_name j)"
  have l: "\<And>k. join data_folder (parquet_name k) \<noteq> []
      \<and> last (join data_folder (parquet_name k)) = CHR ''t''"
    using parquet_name_last by (simp add: last_join join_nonempty)
  have "lookup (snd (shutil_copy2 ?src ?dst w)) p = lookup w p"
    using l assms by (intro shutil_copy2_lookup [where c = "CHR ''t''"]) simp_all
  then show ?thesis
    by (auto simp: copy_parquet_file_def logger_call_def Let_def
        split: prod.splits option.splits logger.splits)
qed

lemma copy_loop_frame:
  assumes "p \<noteq> []" and "last p \<noteq> CHR ''t''"
  shows "lookup (snd (copy_loop next_episode_num data_path idxs w)) p = lookup w p"
proof (induction idxs arbitrary: w)
  case Nil
  then show ?case by simp
next
  case (Cons i idxs)
  obtain r w1 where c: "copy_parquet_file Logger i (next_episode_num + i) data_path w = (r, w1)"
    by (cases "copy_parquet_file Logger i (next_episode_num + i) data_path w")
  with copy_parquet_file_returns [of i "next_episode_num + i" data_path w]
  obtain copied where r: "r = Inr copied" by auto
  from copy_parquet_file_frame [OF assms, of Logger i "next_episode_num + i" data_path w] c
  have "lookup w1 p = lookup w p" by simp
  with c r Cons.IH [of w1] show ?case by simp
qed

lemma camera_loop_all_missing:
  "\<forall>obs \<in> set folders. \<not> exists w (join (join videos_path obs) (video_name src_episode)) \<Longrightarrow>
   camera_loop ex videos_path src_episode dest_episode folders (total_success, total_attempts, w)
     = (total_success, total_attempts, w)"
  by (induction folders) (simp_all add: Let_def)

lemma episode_loop_all_missing:
  "\<forall>i \<in> set idxs. \<forall>obs \<in> set folders.
      \<not> exists w (join (join videos_path obs) (video_name i)) \<Longrightarrow>
   episode_loop ex videos_path folders next_episode_num idxs (total_success, total_attempts, w)
     = (total_success, total_attempts, w)"
  by (induction idxs) (simp_all add: camera_loop_all_missing)

text \<open>
  C10. When the videos and data paths exist, the listing gives at least one camera
  folder, every source sidecar exists and no camera folder has the source video of
  any requested episode, \<open>process_dataset\<close> copies the sidecars, attempts no
  generation (both counters stay 0 and the world is the one the copy phase left) and
  returns \<open>True\<close>.
\<close>

theorem process_dataset_all_videos_missing:
  assumes vid: "exists w (videos_path_of dataset_name)"
    and dat: "exists w (data_path_of dataset_name)"
    and ls: "listdir w (videos_path_of dataset_name) = Inr names"
    and cams: "camera_folders w (videos_path_of dataset_name) names = first_obs_folder # other_folders"
    and valid: "\<forall>i \<in> {0..n_episodes - 1}.
                  exists w (join (data_path_of dataset_name) (parquet_name i))"
    and skipped: "\<forall>i \<in> {0..n_episodes - 1}. \<forall>obs \<in> set (first_obs_folder # other_folders).
                  \<not> exists w (join (join (videos_path_of dataset_name) obs) (video_name i))"
  shows "\<exists>w1. copy_loop (get_next_episode_number w (join (videos_path_of dataset_name) first_obs_folder))
                 (data_path_of dataset_name) [0..n_episodes - 1] w = (None, w1)
             \<and> episode_loop ex (videos_path_of dataset_name) (first_obs_folder # other_folders)
                 (get_next_episode_number w (join (videos_path_of dataset_name) first_obs_folder))
                 [0..n_episodes - 1] (0, 0, w1) = (0, 0, w1)
             \<and> process_dataset ex dataset_name n_episodes w = (Inr True, w1)"
proof -
  let ?vp = "videos_path_of dataset_name" and ?dp = "data_path_of dataset_name"
  let ?next = "get_next_episode_number w (join ?vp first_obs_folder)"
  obtain r w1 where cl: "copy_loop ?next ?dp [0..n_episodes - 1] w = (r, w1)"
    by (cases "copy_loop ?next ?dp [0..n_episodes - 1] w")
  have r: "r = None"
    using copy_loop_returns [of ?next ?dp "[0..n_episodes - 1]" w] cl by simp
  have frame: "\<And>p. p \<noteq> [] \<Longrightarrow> last p \<noteq> CHR ''t'' \<Longrightarrow> lookup w1 p = lookup w p"
    using copy_loop_frame [of _ ?next ?dp "[0..n_episodes - 1]" w] cl by simp
  have "\<forall>i \<in> set [0..n_episodes - 1]. \<forall>obs \<in> set (first_obs_folder # other_folders).
          \<not> exists w1 (join (join ?vp obs) (video_name i))"
  proof (intro ballI)
    fix i obs
    assume i: "i \<in> set [0..n_episodes - 1]" and obs: "obs \<in> set (first_obs_folder # other_folders)"
    have "join (join ?vp obs) (video_name i) \<noteq> []"
      and "last (join (join ?vp obs) (video_name i)) \<noteq> CHR ''t''"
      using video_name_last [of i] by (simp_all add: last_join join_nonempty)
    then have "lookup w1 (join (join ?vp obs) (video_name i))
        = lookup w (join (join ?vp obs) (video_name i))"
      by (rule frame)
    moreover from skipped i obs have "\<not> exists w (join (join ?vp obs) (video_name i))"
      by (simp only: set_upto) blast
    ultimately show "\<not> exists w1 (join (join ?vp obs) (video_name i))"
      by (simp add: exists_def)
  qed
  then have el: "episode_loop ex ?vp (first_obs_folder # other_folders) ?next
      [0..n_episodes - 1] (0, 0, w1) = (0, 0, w1)"
    by (rule episode_loop_all_missing)
  have v: "validate_sources w ?dp [0..n_episodes - 1]"
    using valid by (simp add: validate_sources_iff)
  have "process_dataset ex dataset_name n_episodes w = (Inr True, w1)"
    using vid dat ls cams v cl r el by (simp add: process_dataset_def Let_def)
  with cl r el show ?thesis by blast
qed

theorem process_dataset_all_videos_missing_witness:
  "exists dataset_no_source_video (join (data_path_of ''d'') (parquet_name 0))
   \<and> \<not> exists dataset_no_source_video
         (join (join (videos_path_of ''d'') ''observation.images.front'') (video_name 0))
   \<and> fst (process_dataset (example_externals tool_raises) ''d'' 1 dataset_no_source_video)
       = Inr True"
proof -
  have vid: "exists dataset_no_source_video (videos_path_of ''d'')" by code_simp
  have dat: "exists dataset_no_source_video (data_path_of ''d'')" by code_simp
  have ls: "listdir dataset_no_source_video (videos_path_of ''d'')
      = Inr [''observation.images.front'']"
    by code_simp
  have cams: "camera_folders dataset_no_source_video (videos_path_of ''d'')
      [''observation.images.front''] = ''observation.images.front'' # []"
    by code_simp
  have present: "exists dataset_no_source_video (join (data_path_of ''d'') (parquet_name 0))"
    by code_simp
  have absent: "\<not> exists dataset_no_source_video
         (join (join (videos_path_of ''d'') ''observation.images.front'') (video_name 0))"
    by code_simp
  have valid: "\<forall>i \<in> {0..1 - 1}.
      exists dataset_no_source_video (join (data_path_of ''d'') (parquet_name i))"
    using present by simp
  have skipped: "\<forall>i \<in> {0..1 - 1}. \<forall>obs \<in> set (''observation.images.front'' # []).
      \<not> exists dataset_no_source_video (join (join (videos_path_of ''d'') obs) (video_name i))"
    using absent by simp
  from process_dataset_all_videos_missing [OF vid dat ls cams valid skipped,
      of "example_externals tool_raises"]
  have "fst (process_dataset (example_externals tool_raises) ''d'' 1 dataset_no_source_video)
      = Inr True"
    by auto
  with present absent show ?thesis by simp
qed

section \<open>Frame Sampler: a probe that fails\<close>

lemma shutil_rmtree_trace [simp]:
  "trace (snd (shutil_rmtree p w)) = trace w @ [Rmtree p]"
  by (simp add: shutil_rmtree_def Let_def split: option.splits node.splits)

lemma subprocess_run_trace:
  "subprocess_run ex cmd env w = (r, w2) \<Longrightarrow> trace w2 = trace w @ [Subprocess cmd]"
  by (auto simp: subprocess_run_def Let_def split: sum.splits prod.splits)

lemma mkdtemp_trace:
  "mkdtemp ex w = (Inr temp_dir, w1) \<Longrightarrow> trace w1 = trace w @ [Mkdtemp temp_dir]"
  by (auto simp: mkdtemp_def split: sum.splits)

lemma ffmpeg_cmd_not_probe: "ffmpeg_cmd ex video_path t p \<noteq> duration_cmd v"
  by (simp add: ffmpeg_cmd_def duration_cmd_def)

text \<open>
  C8. Once the temporary directory is there, let the duration probe raise, exit with
  a status other than 0, print what \<^verbatim>\<open>float\<close> rejects, or print a duration \<open>d\<close>
  with \<^verbatim>\<open>d <= 0\<close>. Then \<open>extract_frames_from_video\<close> returns the empty list, and the
  calls it adds to the trace are the creation of the temporary directory, the probe
  and the removal of the directory: no \<^verbatim>\<open>ffmpeg\<close> command is run.
\<close>

theorem extract_frames_probe_fails:
  assumes tmp: "mkdtemp ex w = (Inr temp_dir, w1)"
    and probe: "subprocess_run ex (duration_cmd video_path) (environ ex) w1 = (probe, w2)"
    and failed: "(\<exists>e. probe = Inl e)
       \<or> (\<exists>result. probe = Inr result
            \<and> (returncode result \<noteq> 0
               \<or> float_of_str ex (strip (stdout result)) = None
               \<or> (\<exists>duration. float_of_str ex (strip (stdout result)) = Some duration
                     \<and> float_le_zero ex duration)))"
  shows "fst (extract_frames_from_video ex video_path num_frames w) = []
       \<and> trace (snd (extract_frames_from_video ex video_path num_frames w))
           = trace w @ [Mkdtemp temp_dir, Subprocess (duration_cmd video_path)]
               @ (if temp_dir \<noteq> [] \<and> exists w2 temp_dir then [Rmtree temp_dir] else [])
       \<and> (\<forall>t p. Subprocess (ffmpeg_cmd ex video_path t p)
               \<notin> set (drop (length (trace w))
                          (trace (snd (extract_frames_from_video ex video_path num_frames w)))))"
proof -
  have body: "\<exists>r. extract_frames_body ex video_path num_frames temp_dir w1 = (r, w2)
      \<and> (r = Inr [] \<or> (\<exists>e. r = Inl e))"
    using probe failed by (auto simp: extract_frames_body_def)
  then obtain r where r: "extract_frames_body ex video_path num_frames temp_dir w1 = (r, w2)"
    and r_empty: "r = Inr [] \<or> (\<exists>e. r = Inl e)" by blast
  have t2: "trace w2 = trace w @ [Mkdtemp temp_dir, Subprocess (duration_cmd video_path)]"
    using mkdtemp_trace [OF tmp] subprocess_run_trace [OF probe] by simp
  have res: "fst (extract_frames_from_video ex video_path num_frames w) = []"
    using tmp r r_empty by (auto simp: extract_frames_from_video_def)
  have tr: "trace (snd (extract_frames_from_video ex video_path num_frames w))
           = trace w @ [Mkdtemp temp_dir, Subprocess (duration_cmd video_path)]
               @ (if temp_dir \<noteq> [] \<and> exists w2 temp_dir then [Rmtree temp_dir] else [])"
    using tmp r t2 by (simp add: extract_frames_from_video_def)
  have "\<forall>t p. Subprocess (ffmpeg_cmd ex video_path t p)
               \<notin> set (drop (length (trace w))
                          (trace (snd (extract_frames_from_video ex video_path num_frames w))))"
    unfolding tr by (simp add: ffmpeg_cmd_not_probe)
  with res tr show ?thesis by blast
qed

lemma mkdtemp_example:
  "mkdtemp (example_externals run) example_world
     = (Inr ''/tmp/tmpframes'',
        \<lparr>fs = [(''/root/cosmos-transfer1'', Dir), (''/out'', Dir), (''/tmp/tmpframes'', Dir)],
         cwd = ''/'', trace = [Mkdtemp ''/tmp/tmpframes'']\<rparr>)"
  by (simp add: mkdtemp_def example_externals_def example_world_def log_event_def
      resolve_def startswith_def)

theorem extract_frames_probe_fails_witness:
  "mkdtemp (example_externals (tool_exits 1 [])) example_world
     = (Inr ''/tmp/tmpframes'',
        \<lparr>fs = [(''/root/cosmos-transfer1'', Dir), (''/out'', Dir), (''/tmp/tmpframes'', Dir)],
         cwd = ''/'', trace = [Mkdtemp ''/tmp/tmpframes'']\<rparr>)
   \<and> subprocess_run (example_externals (tool_exits 1 [])) (duration_cmd ''/in/episode_000000.mp4'')
        (environ (example_externals (tool_exits 1 [])))
        \<lparr>fs = [(''/root/cosmos-transfer1'', Dir), (''/out'', Dir), (''/tmp/tmpframes'', Dir)],
         cwd = ''/'', trace = [Mkdtemp ''/tmp/tmpframes'']\<rparr>
     = (Inr \<lparr>returncode = 1, stdout = [], stderr = []\<rparr>,
        \<lparr>fs = [(''/root/cosmos-transfer1'', Dir), (''/out'', Dir), (''/tmp/tmpframes'', Dir)],
         cwd = ''/'',
         trace = [Mkdtemp ''/tmp/tmpframes'',
                  Subprocess (duration_cmd ''/in/episode_000000.mp4'')]\<rparr>)
   \<and> fst (extract_frames_from_video (example_externals (tool_exits 1 []))
            ''/in/episode_000000.mp4'' 6 example_world) = []
   \<and> trace (snd (extract_frames_from_video (example_externals (tool_exits 1 []))
            ''/in/episode_000000.mp4'' 6 example_world))
       = [Mkdtemp ''/tmp/tmpframes'', Subprocess (duration_cmd ''/in/episode_000000.mp4''),
          Rmtree ''/tmp/tmpframes'']"
proof -
  let ?ex = "example_externals (tool_exits 1 [])"
  let ?w1 = "\<lparr>fs = [(''/root/cosmos-transfer1'', Dir), (''/out'', Dir), (''/tmp/tmpframes'', Dir)],
         cwd = ''/'', trace = [Mkdtemp ''/tmp/tmpframes'']\<rparr>"
  let ?w2 = "\<lparr>fs = [(''/root/cosmos-transfer1'', Dir), (''/out'', Dir), (''/tmp/tmpframes'', Dir)],
         cwd = ''/'',
         trace = [Mkdtemp ''/tmp/tmpframes'',
                  Subprocess (duration_cmd ''/in/episode_000000.mp4'')]\<rparr>"
  have tmp: "mkdtemp ?ex example_world = (Inr ''/tmp/tmpframes'', ?w1)"
    by (rule mkdtemp_example)
  have probe: "subprocess_run ?ex (duration_cmd ''/in/episode_000000.mp4'') (environ ?ex) ?w1
      = (Inr \<lparr>returncode = 1, stdout = [], stderr = []\<rparr>, ?w2)"
    by (simp add: subprocess_run_def example_externals_def tool_exits_def log_event_def)
  have failed: "(\<exists>e. Inr \<lparr>returncode = 1, stdout = [], stderr = []\<rparr> = Inl e)
       \<or> (\<exists>result. (Inr \<lparr>returncode = 1, stdout = [], stderr = []\<rparr>
                       :: py_exception + completed_process) = Inr result
            \<and> (returncode result \<noteq> 0
               \<or> float_of_str ?ex (strip (stdout result)) = None
               \<or> (\<exists>duration. float_of_str ?ex (strip (stdout result)) = Some duration
                     \<and> float_le_zero ?ex duration)))"
    by simp
  have there: "exists ?w2 ''/tmp/tmpframes''"
    by (simp add: exists_def lookup_def resolve_def startswith_def)
  from extract_frames_probe_fails [OF tmp probe failed, of 6] there tmp probe
  show ?thesis by (simp add: example_world_def)
qed

section \<open>Frame Sampler: the timestamps\<close>







end
